theory Spec2Isabelle
  imports Complex_Main
begin

section \<open>Values, exceptions and console output\<close>

text \<open>
  The scripts compute with NumPy arrays of double-precision floats. The numbers are
  idealised as reals: no rounding, no overflow, no NaN among the inputs. The one place
  where the scripts leave the finite numbers is a division by zero, which NumPy answers
  with \<open>inf\<close>, \<open>-inf\<close> or \<open>nan\<close> and a warning, never with an exception; the
  value \<open>NonFinite\<close> stands for those three.
\<close>

datatype fval = Finite real | NonFinite

definition np_div :: "real \<Rightarrow> real \<Rightarrow> fval" where
  "np_div a b = (if b = 0 then NonFinite else Finite (a / b))"

text \<open>The exceptions the modelled code can raise, by class.\<close>

datatype exn = FileNotFoundError | ValueError | IndexError | TypeError | OtherException

text \<open>
  A printed line is the f-string that produced it: literal text, numbers with the number
  of decimals of their format (\<open>{v:.3f}\<close> is \<open>Flt 3 v\<close>) and, in one loader, the text
  of an exception. A function returns its outcome (\<open>Inl\<close> the exception it raises) and
  the lines it has printed.
\<close>

datatype piece = Str string | Flt nat fval | Exc exn

type_synonym line = "piece list"

subsection \<open>One-dimensional arrays\<close>

text \<open>
  A one-dimensional array is a list. \<open>np.max\<close> and \<open>np.min\<close> raise ValueError on an
  array without elements; \<open>np.argmax\<close> and \<open>np.argmin\<close> do so too and otherwise
  return the first index of the extremum.
\<close>

definition np_max :: "real list \<Rightarrow> exn + real" where
  "np_max xs = (case xs of [] \<Rightarrow> Inl ValueError | x # r \<Rightarrow> Inr (fold max r x))"

definition np_min :: "real list \<Rightarrow> exn + real" where
  "np_min xs = (case xs of [] \<Rightarrow> Inl ValueError | x # r \<Rightarrow> Inr (fold min r x))"

text \<open>
  \<open>np.argmax\<close> and \<open>np.argmin\<close> scan the array from the left and keep the index of
  the best element so far; a later element replaces it only when it is strictly better,
  so the first index of the extremum wins.
\<close>

fun arg_scan :: "(real \<Rightarrow> real \<Rightarrow> bool) \<Rightarrow> real \<Rightarrow> nat \<Rightarrow> nat \<Rightarrow> real list \<Rightarrow> nat" where
  "arg_scan better best k i [] = k"
| "arg_scan better best k i (x # xs) =
     (if better x best then arg_scan better x i (Suc i) xs
      else arg_scan better best k (Suc i) xs)"

definition np_argmax :: "real list \<Rightarrow> exn + nat" where
  "np_argmax xs =
     (case xs of [] \<Rightarrow> Inl ValueError | x # r \<Rightarrow> Inr (arg_scan (\<lambda>a b. b < a) x 0 1 r))"

definition np_argmin :: "real list \<Rightarrow> exn + nat" where
  "np_argmin xs =
     (case xs of [] \<Rightarrow> Inl ValueError | x # r \<Rightarrow> Inr (arg_scan (\<lambda>a b. a < b) x 0 1 r))"

definition np_abs :: "real list \<Rightarrow> real list" where
  "np_abs xs = map abs xs"

text \<open>Reading \<open>xs[i]\<close> at an index that is not negative: IndexError beyond the end.\<close>

definition np_index :: "real list \<Rightarrow> nat \<Rightarrow> exn + real" where
  "np_index xs i = (if i < length xs then Inr (xs ! i) else Inl IndexError)"

text \<open>
  The first index of the maximum of \<open>ys\<close> among the indices from \<open>lo\<close> up to, not
  including, \<open>hi\<close>; and the first index of the element of \<open>xs\<close> closest to 0.
\<close>

definition peak_in :: "real list \<Rightarrow> nat \<Rightarrow> nat \<Rightarrow> nat \<Rightarrow> bool" where
  "peak_in ys lo hi i \<longleftrightarrow>
     lo \<le> i \<and> i < hi \<and> (\<forall>j. lo \<le> j \<and> j < hi \<longrightarrow> ys ! j \<le> ys ! i) \<and>
     (\<forall>j. lo \<le> j \<and> j < i \<longrightarrow> ys ! j < ys ! i)"

definition closest_to_zero :: "real list \<Rightarrow> nat \<Rightarrow> bool" where
  "closest_to_zero xs f \<longleftrightarrow>
     f < length xs \<and> (\<forall>j<length xs. \<bar>xs ! f\<bar> \<le> \<bar>xs ! j\<bar>) \<and> (\<forall>j<f. \<bar>xs ! f\<bar> < \<bar>xs ! j\<bar>)"

text \<open>
  Arithmetic on two one-dimensional arrays follows NumPy's broadcasting: equal lengths
  combine element by element, an array of length one is stretched to the other's length,
  and any other pair of lengths raises ValueError.
\<close>

definition broadcast2 :: "(real \<Rightarrow> real \<Rightarrow> real) \<Rightarrow> real list \<Rightarrow> real list \<Rightarrow> exn + real list" where
  "broadcast2 f xs ys =
     (if length xs = length ys then Inr (map2 f xs ys)
      else if length xs = 1 then Inr (map (f (hd xs)) ys)
      else if length ys = 1 then Inr (map (\<lambda>x. f x (hd ys)) xs)
      else Inl ValueError)"

text \<open>\<open>np.diff(x)\<close> is \<open>x[1:] - x[:-1]\<close>; it is empty for fewer than two elements.\<close>

definition np_diff :: "real list \<Rightarrow> real list" where
  "np_diff x = map2 (-) (tl x) (butlast x)"

text \<open>
  \<open>np.trapz(y, x)\<close> for one-dimensional arguments, as NumPy computes it:
  \<open>d = diff(x)\<close>, then \<open>(d * (y[1:] + y[:-1]) / 2.0).sum()\<close>.
\<close>

definition np_trapz :: "real list \<Rightarrow> real list \<Rightarrow> exn + real" where
  "np_trapz y x =
     (let d = np_diff x in
      case broadcast2 (*) d (map2 (+) (tl y) (butlast y)) of
        Inl e \<Rightarrow> Inl e
      | Inr p \<Rightarrow> Inr (sum_list (map (\<lambda>v. v / 2) p)))"

text \<open>
  The composite trapezoidal sum in the words of the specification:
  the sum of \<open>(x[i+1] - x[i]) * (y[i] + y[i+1]) / 2\<close> over the segments of the curve.
\<close>

definition trapezoid_sum :: "real list \<Rightarrow> real list \<Rightarrow> real" where
  "trapezoid_sum y x = (\<Sum>i<length x - 1. (x ! (i + 1) - x ! i) * (y ! i + y ! (i + 1)) / 2)"

subsection \<open>Two-dimensional arrays\<close>

text \<open>
  A two-dimensional array of shape \<open>(m, n)\<close> is its number of columns \<open>n\<close> and the list
  of its \<open>m\<close> rows; the number of columns is kept apart because an array can have columns
  and no row. In a well-formed array every row has \<open>n\<close> entries.
\<close>

record array2 =
  ncols :: nat
  rows :: "real list list"

definition nrows :: "array2 \<Rightarrow> nat" where
  "nrows a = length (rows a)"

definition wf_array2 :: "array2 \<Rightarrow> bool" where
  "wf_array2 a = list_all (\<lambda>r. length r = ncols a) (rows a)"

definition flat :: "array2 \<Rightarrow> real list" where
  "flat a = concat (rows a)"

text \<open>The slices \<open>a[:, :k]\<close> and \<open>a[:, k:]\<close>.\<close>

definition cols_upto :: "nat \<Rightarrow> array2 \<Rightarrow> array2" where
  "cols_upto k a = \<lparr>ncols = min k (ncols a), rows = map (take k) (rows a)\<rparr>"

definition cols_from :: "nat \<Rightarrow> array2 \<Rightarrow> array2" where
  "cols_from k a = \<lparr>ncols = ncols a - k, rows = map (drop k) (rows a)\<rparr>"

text \<open>The entries of an array in the columns whose index lies in \<open>J\<close>.\<close>

definition block :: "array2 \<Rightarrow> nat set \<Rightarrow> real set" where
  "block a J = {rows a ! i ! j | i j. i < length (rows a) \<and> j < ncols a \<and> j \<in> J}"

definition entry :: "array2 \<Rightarrow> nat \<Rightarrow> nat \<Rightarrow> real" where
  "entry a i j = rows a ! i ! j"

text \<open>
  Arithmetic on two two-dimensional arrays broadcasts each axis like the one-dimensional
  case: the extents are equal, or one of them is 1 and that array is repeated along the
  axis; otherwise the operation raises ValueError.
\<close>

definition broadcast_dim :: "nat \<Rightarrow> nat \<Rightarrow> nat option" where
  "broadcast_dim m n =
     (if m = n then Some m else if m = 1 then Some n else if n = 1 then Some m else None)"

definition stretch :: "nat \<Rightarrow> 'a list \<Rightarrow> 'a list" where
  "stretch n xs = (if length xs = n then xs else replicate n (hd xs))"

definition np_subtract :: "array2 \<Rightarrow> array2 \<Rightarrow> exn + array2" where
  "np_subtract a b =
     (case broadcast_dim (nrows a) (nrows b) of
        None \<Rightarrow> Inl ValueError
      | Some m \<Rightarrow>
     (case broadcast_dim (ncols a) (ncols b) of
        None \<Rightarrow> Inl ValueError
      | Some n \<Rightarrow>
          Inr \<lparr>ncols = n,
               rows = map2 (\<lambda>r s. map2 (-) (stretch n r) (stretch n s))
                        (stretch m (rows a)) (stretch m (rows b))\<rparr>))"

definition np_abs2 :: "array2 \<Rightarrow> array2" where
  "np_abs2 a = \<lparr>ncols = ncols a, rows = map (map abs) (rows a)\<rparr>"

text \<open>
  \<open>np.mean\<close> divides the sum by the number of elements; on an array without elements
  this is the float division \<open>0 / 0\<close>, which gives \<open>nan\<close> and a warning.
\<close>

definition np_mean :: "real list \<Rightarrow> fval" where
  "np_mean xs = np_div (sum_list xs) (real (length xs))"

subsection \<open>Files\<close>

text \<open>
  What \<open>np.loadtxt\<close> returns is an array of dimension 0 (a file with a single number),
  1 (a single row or a single column) or 2. The file system is a parameter of the model:
  for every path, the exception \<open>np.loadtxt\<close> raises on it (FileNotFoundError for an
  absent file, ValueError for one it cannot parse) or the array it returns.
\<close>

datatype ndarray = Arr0 real | Arr1 "real list" | Arr2 array2

type_synonym files = "string \<Rightarrow> exn + ndarray"

text \<open>
  The slices \<open>data[:, j]\<close> and \<open>data[:, k:]\<close> of a loaded table: IndexError on an
  array with fewer than two dimensions, and for a column that does not exist.
\<close>

definition column :: "ndarray \<Rightarrow> nat \<Rightarrow> exn + real list" where
  "column data j =
     (case data of
        Arr2 a \<Rightarrow> if j < ncols a then Inr (map (\<lambda>r. r ! j) (rows a)) else Inl IndexError
      | _ \<Rightarrow> Inl IndexError)"

definition columns_from :: "ndarray \<Rightarrow> nat \<Rightarrow> exn + array2" where
  "columns_from data k =
     (case data of Arr2 a \<Rightarrow> Inr (cols_from k a) | _ \<Rightarrow> Inl IndexError)"

text \<open>
  The statements inside the \<open>try\<close> of the loaders: the first column with all the
  remaining columns, or the first column with the second.
\<close>

definition load_table :: "files \<Rightarrow> string \<Rightarrow> exn + real list \<times> array2" where
  "load_table loadtxt filename =
     (case loadtxt filename of
        Inl e \<Rightarrow> Inl e
      | Inr data \<Rightarrow>
     (case column data 0 of
        Inl e \<Rightarrow> Inl e
      | Inr first \<Rightarrow>
     (case columns_from data 1 of
        Inl e \<Rightarrow> Inl e
      | Inr others \<Rightarrow> Inr (first, others))))"

definition load_pair :: "files \<Rightarrow> string \<Rightarrow> exn + real list \<times> real list" where
  "load_pair loadtxt filename =
     (case loadtxt filename of
        Inl e \<Rightarrow> Inl e
      | Inr data \<Rightarrow>
     (case column data 0 of
        Inl e \<Rightarrow> Inl e
      | Inr first \<Rightarrow>
     (case column data 1 of
        Inl e \<Rightarrow> Inl e
      | Inr second \<Rightarrow> Inr (first, second))))"

text \<open>
  A script is a sequence of steps, each with an outcome and the lines it prints; an
  exception ends the script and keeps the lines printed so far.
\<close>

definition say :: "line \<Rightarrow> (exn + unit) \<times> line list" where
  "say l = (Inr (), [l])"

definition and_then ::
  "(exn + unit) \<times> line list \<Rightarrow> (exn + unit) \<times> line list \<Rightarrow> (exn + unit) \<times> line list" where
  "and_then a b =
     (case fst a of Inl e \<Rightarrow> (Inl e, snd a) | Inr u \<Rightarrow> (fst b, snd a @ snd b))"

text \<open>
  The plotting functions only draw and save figures. Whether such a call returns or
  raises is decided outside the modelled code, so a script takes the outcome of each of
  its plotting calls as a parameter: \<open>None\<close> when the call returns.
\<close>

definition plotting :: "exn option \<Rightarrow> (exn + unit) \<times> line list" where
  "plotting outcome = (case outcome of None \<Rightarrow> (Inr (), []) | Some e \<Rightarrow> (Inl e, []))"

section \<open>Band gap (qe\_band\_analysis.py)\<close>

definition analyze_band_gap_from_bands :: "array2 \<Rightarrow> (exn + real) \<times> line list" where
  "analyze_band_gap_from_bands energies =
     (case np_max (flat (cols_upto 20 energies)) of
        Inl e \<Rightarrow> (Inl e, [])
      | Inr vb_max \<Rightarrow>
          (case np_min (flat (cols_from 20 energies)) of
             Inl e \<Rightarrow> (Inl e, [])
           | Inr cb_min \<Rightarrow>
               (let band_gap = cb_min - vb_max in
                (Inr band_gap,
                 [[Str ''Band structure analysis:''],
                  [Str ''  Valence band maximum: '', Flt 3 (Finite vb_max), Str '' eV''],
                  [Str ''  Conduction band minimum: '', Flt 3 (Finite cb_min), Str '' eV''],
                  [Str ''  Band gap: '', Flt 3 (Finite band_gap), Str '' eV'']]))))"

text \<open>The lines the gap finder prints for a valence maximum and a conduction minimum.\<close>

definition band_gap_report :: "real \<Rightarrow> real \<Rightarrow> line list" where
  "band_gap_report vb cb =
     [[Str ''Band structure analysis:''],
      [Str ''  Valence band maximum: '', Flt 3 (Finite vb), Str '' eV''],
      [Str ''  Conduction band minimum: '', Flt 3 (Finite cb), Str '' eV''],
      [Str ''  Band gap: '', Flt 3 (Finite (cb - vb)), Str '' eV'']]"

text \<open>
  Test arrays: the literal blocks of the specification side by side (four columns), the
  same blocks with the valence block filled up to the twenty columns the code cuts off,
  and an array of 21 columns without a row.
\<close>

definition literal_bands :: array2 where
  "literal_bands = \<lparr>ncols = 4, rows = [[-1, -1/2, 1/5, 3/10]]\<rparr>"

definition padded_bands :: array2 where
  "padded_bands = \<lparr>ncols = 22, rows =
     [[-1, -1/2, -1, -1, -1, -1, -1, -1, -1, -1, -1, -1, -1, -1, -1, -1, -1, -1, -1, -1,
       1/5, 3/10]]\<rparr>"

definition rowless_bands :: array2 where
  "rowless_bands = \<lparr>ncols = 21, rows = []\<rparr>"

definition narrow_bands :: array2 where
  "narrow_bands = \<lparr>ncols = 2, rows = [[-1, -1/2], [-2, 0]]\<rparr>"

text \<open>
  The loader returns the pair \<open>(None, None)\<close>, modelled as \<open>None\<close>, or the pair of the
  k-points and the band energies; its bare \<open>except\<close> lets no exception out.
\<close>

definition read_band_structure ::
  "files \<Rightarrow> string \<Rightarrow> (real list \<times> array2) option \<times> line list" where
  "read_band_structure loadtxt filename =
     (case load_table loadtxt filename of
        Inr (k_points, energies) \<Rightarrow> (Some (k_points, energies), [])
      | Inl e \<Rightarrow> (None, [[Str ''Error reading band structure file: '', Str filename]]))"

text \<open>\<open>main\<close> of qe\_band\_analysis.py.\<close>

definition main_band :: "files \<Rightarrow> exn option \<Rightarrow> (exn + unit) \<times> line list" where
  "main_band loadtxt plot_band_structure =
     and_then (say [Str ''=== Band Structure Analysis ===''])
    (case read_band_structure loadtxt ''bands.dat'' of (loaded, printed) \<Rightarrow>
     and_then (Inr (), printed)
    (and_then
       (case loaded of
          None \<Rightarrow> (Inr (), [])
        | Some (k_points, energies) \<Rightarrow>
            and_then (plotting plot_band_structure)
              (case analyze_band_gap_from_bands energies of
                 (Inl e, out) \<Rightarrow> (Inl e, out)
               | (Inr band_gap, out) \<Rightarrow> (Inr (), out)))
       (say [Str ''Band structure analysis completed!''])))"

section \<open>Phonon properties (qe\_phonon\_analysis.py)\<close>

text \<open>The unit \<open>cm\<close> with the superscript \<open>-1\<close> of the source, in UTF-8.\<close>

definition per_cm :: string where
  "per_cm = '' cm'' @ [CHR 0xE2, CHR 0x81, CHR 0xBB, CHR 0xC2, CHR 0xB9]"

definition phonon_report :: "real \<Rightarrow> fval \<Rightarrow> real \<Rightarrow> line list" where
  "phonon_report max_freq avg_freq total_states =
     [[Str ''Phonon analysis:''],
      [Str ''  Maximum frequency: '', Flt 1 (Finite max_freq), Str per_cm],
      [Str ''  Average frequency: '', Flt 1 avg_freq, Str per_cm],
      [Str ''  Total phonon states: '', Flt 1 (Finite total_states)]]"

definition analyze_phonon_properties ::
  "real list \<Rightarrow> real list \<Rightarrow> (exn + real \<times> fval \<times> real) \<times> line list" where
  "analyze_phonon_properties frequency dos =
     (case np_trapz dos frequency of
        Inl e \<Rightarrow> (Inl e, [])
      | Inr total_states \<Rightarrow>
     (case np_max frequency of
        Inl e \<Rightarrow> (Inl e, [])
      | Inr max_freq \<Rightarrow>
     (case broadcast2 (*) frequency dos of
        Inl e \<Rightarrow> (Inl e, [])
      | Inr weighted \<Rightarrow>
     (case np_trapz weighted frequency of
        Inl e \<Rightarrow> (Inl e, [])
      | Inr numerator \<Rightarrow>
          (let avg_freq = np_div numerator total_states in
           (Inr (max_freq, avg_freq, total_states),
            phonon_report max_freq avg_freq total_states))))))"

definition read_phonon_dos ::
  "files \<Rightarrow> string \<Rightarrow> (real list \<times> real list) option \<times> line list" where
  "read_phonon_dos loadtxt filename =
     (case load_pair loadtxt filename of
        Inr (frequency, dos) \<Rightarrow> (Some (frequency, dos), [])
      | Inl e \<Rightarrow> (None, [[Str ''Error reading phonon DOS file: '', Str filename]]))"

definition read_phonon_modes ::
  "files \<Rightarrow> string \<Rightarrow> (real list \<times> array2) option \<times> line list" where
  "read_phonon_modes loadtxt filename =
     (case load_table loadtxt filename of
        Inr (q_points, frequencies) \<Rightarrow> (Some (q_points, frequencies), [])
      | Inl e \<Rightarrow> (None, [[Str ''Error reading phonon modes file: '', Str filename]]))"

text \<open>\<open>main\<close> of qe\_phonon\_analysis.py.\<close>

definition main_phonon :: "files \<Rightarrow> exn option \<Rightarrow> exn option \<Rightarrow> (exn + unit) \<times> line list" where
  "main_phonon loadtxt plot_phonon_dos plot_phonon_dispersion =
     and_then (say [Str ''=== Phonon Analysis ===''])
    (case read_phonon_dos loadtxt ''phonon_dos.dat'' of (loaded, printed) \<Rightarrow>
     and_then (Inr (), printed)
    (and_then
       (case loaded of
          None \<Rightarrow> (Inr (), [])
        | Some (frequency, dos) \<Rightarrow>
            and_then (plotting plot_phonon_dos)
              (case analyze_phonon_properties frequency dos of
                 (Inl e, out) \<Rightarrow> (Inl e, out)
               | (Inr result, out) \<Rightarrow> (Inr (), out)))
    (case read_phonon_modes loadtxt ''phonon_frequencies.dat'' of (modes, printed') \<Rightarrow>
     and_then (Inr (), printed')
    (and_then
       (case modes of
          None \<Rightarrow> (Inr (), [])
        | Some (q_points, frequencies) \<Rightarrow> plotting plot_phonon_dispersion)
       (say [Str ''Phonon analysis completed!''])))))"

section \<open>Spin-orbit comparison (qe\_soc\_analysis.py)\<close>

definition read_soc_energies ::
  "files \<Rightarrow> string \<Rightarrow> (real list \<times> array2) option \<times> line list" where
  "read_soc_energies loadtxt filename =
     (case load_table loadtxt filename of
        Inr (k_points, energies) \<Rightarrow> (Some (k_points, energies), [])
      | Inl e \<Rightarrow> (None, [[Str ''Error reading SOC energies file: '', Str filename]]))"

definition soc_report :: "fval \<Rightarrow> real \<Rightarrow> line list" where
  "soc_report avg_splitting max_splitting =
     [[Str ''SOC analysis:''],
      [Str ''  Average SOC splitting: '', Flt 3 avg_splitting, Str '' eV''],
      [Str ''  Maximum SOC splitting: '', Flt 3 (Finite max_splitting), Str '' eV'']]"

definition compare_with_without_soc ::
  "array2 option \<Rightarrow> array2 option \<Rightarrow> (exn + (fval \<times> real) option) \<times> line list" where
  "compare_with_without_soc soc_energies no_soc_energies =
     (case soc_energies of
        None \<Rightarrow> (Inr None, [])
      | Some soc \<Rightarrow>
     (case no_soc_energies of
        None \<Rightarrow> (Inr None, [])
      | Some no_soc \<Rightarrow>
     (case np_subtract soc no_soc of
        Inl e \<Rightarrow> (Inl e, [])
      | Inr energy_diff \<Rightarrow>
     (let avg_splitting = np_mean (flat (np_abs2 energy_diff)) in
      case np_max (flat (np_abs2 energy_diff)) of
        Inl e \<Rightarrow> (Inl e, [])
      | Inr max_splitting \<Rightarrow>
          (Inr (Some (avg_splitting, max_splitting)),
           soc_report avg_splitting max_splitting)))))"

text \<open>
  The statistics of the differencer in the words of the specification: the mean and the
  maximum of the absolute element-wise differences of two arrays of the same shape.
\<close>

definition mean_abs_diff :: "array2 \<Rightarrow> array2 \<Rightarrow> real" where
  "mean_abs_diff a b =
     (\<Sum>i<nrows a. \<Sum>j<ncols a. \<bar>entry a i j - entry b i j\<bar>) / real (nrows a * ncols a)"

definition max_abs_diff :: "array2 \<Rightarrow> array2 \<Rightarrow> real" where
  "max_abs_diff a b = Max {\<bar>entry a i j - entry b i j\<bar> | i j. i < nrows a \<and> j < ncols a}"

text \<open>Two band tables of two k-points and two bands.\<close>

definition soc_bands :: array2 where
  "soc_bands = \<lparr>ncols = 2, rows = [[1, 2], [3, 4]]\<rparr>"

definition plain_bands :: array2 where
  "plain_bands = \<lparr>ncols = 2, rows = [[0, 4], [3, 1]]\<rparr>"

text \<open>
  \<open>analyze_soc_effects\<close>, the main routine of qe\_soc\_analysis.py. It unpacks the
  result of the comparison into two names, which raises TypeError on \<open>None\<close>.
\<close>

definition analyze_soc_effects :: "files \<Rightarrow> exn option \<Rightarrow> (exn + unit) \<times> line list" where
  "analyze_soc_effects loadtxt plot_soc_comparison =
     and_then (say [Str ''=== Spin-Orbit Coupling Analysis ===''])
    (case read_soc_energies loadtxt ''soc_bands.dat'' of (loaded, printed) \<Rightarrow>
     and_then (Inr (), printed)
    (and_then
       (case loaded of
          None \<Rightarrow> (Inr (), [])
        | Some (k_points, soc_energies) \<Rightarrow>
           (case read_soc_energies loadtxt ''bands.dat'' of (loaded', printed') \<Rightarrow>
            and_then (Inr (), printed')
              (case loaded' of
                 None \<Rightarrow> (Inr (), [])
               | Some (k_points', no_soc_energies) \<Rightarrow>
                   and_then
                     (case compare_with_without_soc (Some soc_energies) (Some no_soc_energies) of
                        (Inl e, out) \<Rightarrow> (Inl e, out)
                      | (Inr None, out) \<Rightarrow> (Inl TypeError, out)
                      | (Inr (Some splitting), out) \<Rightarrow> (Inr (), out))
                     (plotting plot_soc_comparison))))
       (say [Str ''SOC analysis completed!''])))"

section \<open>The PDOS loaders (qe\_pdos\_analysis.py and qe\_pdos\_simple.py)\<close>

text \<open>
  Both scripts call their loader \<open>data_loader\<close>. The one of qe\_pdos\_analysis.py
  catches FileNotFoundError and then every other exception; the one of qe\_pdos\_simple.py,
  \<open>data_loader_simple\<close> here, has no \<open>try\<close>.
\<close>

definition data_loader ::
  "files \<Rightarrow> string \<Rightarrow> (real list \<times> real list) option \<times> line list" where
  "data_loader loadtxt fname =
     (case load_pair loadtxt fname of
        Inr (energy, pdos) \<Rightarrow> (Some (energy, pdos), [])
      | Inl e \<Rightarrow>
          if e = FileNotFoundError
          then (None, [[Str ''Warning: File '', Str fname, Str '' not found'']])
          else (None, [[Str ''Error loading '', Str fname, Str '': '', Exc e]]))"

definition data_loader_simple :: "files \<Rightarrow> string \<Rightarrow> exn + real list \<times> real list" where
  "data_loader_simple loadtxt fname = load_pair loadtxt fname"

text \<open>A directory in which no file exists.\<close>

definition no_files :: files where
  "no_files = (\<lambda>path. Inl FileNotFoundError)"

text \<open>
  Two directories with a single file each: one holds only the phonon DOS, a table of
  three frequencies with their DOS, the other only the phonon modes, a table of two
  q-points with two branches.
\<close>

definition only_dos :: files where
  "only_dos = (\<lambda>path. if path = ''phonon_dos.dat''
      then Inr (Arr2 \<lparr>ncols = 2, rows = [[0, 1], [1, 1], [3, 2]]\<rparr>)
      else Inl FileNotFoundError)"

definition only_modes :: files where
  "only_modes = (\<lambda>path. if path = ''phonon_frequencies.dat''
      then Inr (Arr2 \<lparr>ncols = 3, rows = [[0, 1, 2], [1, 2, 3]]\<rparr>)
      else Inl FileNotFoundError)"

section \<open>PDOS contributions (qe\_pdos\_analysis.py)\<close>

record pdos_result =
  valence_contribution :: real
  conduction_contribution :: real
  total_contribution :: real
  valence_peak_energy :: real
  conduction_peak_energy :: real
  max_pdos :: real

text \<open>
  The body of the loop of \<open>analyze_pdos_contributions\<close> for one atom whose PDOS is not
  \<open>None\<close>: the entry it computes from the energy grid and the PDOS values. The entries
  of the dictionary are evaluated in the order they are written.
\<close>

definition analyze_pdos_curve :: "real list \<Rightarrow> real list \<Rightarrow> exn + pdos_result" where
  "analyze_pdos_curve energy pdos =
     (case np_argmin (np_abs energy) of
        Inl e \<Rightarrow> Inl e
      | Inr fermi_idx \<Rightarrow>
     (case np_trapz (take fermi_idx pdos) (take fermi_idx energy) of
        Inl e \<Rightarrow> Inl e
      | Inr valence \<Rightarrow>
     (case np_trapz (drop fermi_idx pdos) (drop fermi_idx energy) of
        Inl e \<Rightarrow> Inl e
      | Inr conduction \<Rightarrow>
     (case np_argmax (take fermi_idx pdos) of
        Inl e \<Rightarrow> Inl e
      | Inr valence_peak_idx \<Rightarrow>
     (case np_argmax (drop fermi_idx pdos) of
        Inl e \<Rightarrow> Inl e
      | Inr k \<Rightarrow>
     (let conduction_peak_idx = fermi_idx + k in
      case np_index energy valence_peak_idx of
        Inl e \<Rightarrow> Inl e
      | Inr valence_peak \<Rightarrow>
     (case np_index energy conduction_peak_idx of
        Inl e \<Rightarrow> Inl e
      | Inr conduction_peak \<Rightarrow>
     (case np_max pdos of
        Inl e \<Rightarrow> Inl e
      | Inr highest \<Rightarrow>
          Inr \<lparr>valence_contribution = valence,
               conduction_contribution = conduction,
               total_contribution = valence + conduction,
               valence_peak_energy = valence_peak,
               conduction_peak_energy = conduction_peak,
               max_pdos = highest\<rparr>))))))))"

text \<open>
  The loop itself: \<open>pdos_data\<close> is the dictionary in insertion order, \<open>i\<close> the counter
  of \<open>enumerate\<close>; an atom without data is skipped, and the label of an entry is
  \<open>atom_labels[i]\<close>, read after the entry has been computed.
\<close>

fun pdos_loop ::
  "real list \<Rightarrow> string list \<Rightarrow> nat \<Rightarrow> (string \<times> real list option) list \<Rightarrow>
   (string \<rightharpoonup> pdos_result) \<Rightarrow> exn + (string \<rightharpoonup> pdos_result)" where
  "pdos_loop energy atom_labels i [] analysis_results = Inr analysis_results"
| "pdos_loop energy atom_labels i ((atom, None) # rest) analysis_results =
     pdos_loop energy atom_labels (Suc i) rest analysis_results"
| "pdos_loop energy atom_labels i ((atom, Some pdos) # rest) analysis_results =
     (case analyze_pdos_curve energy pdos of
        Inl e \<Rightarrow> Inl e
      | Inr result \<Rightarrow>
          if i < length atom_labels
          then pdos_loop energy atom_labels (Suc i) rest
                 (analysis_results(atom_labels ! i \<mapsto> result))
          else Inl IndexError)"

definition analyze_pdos_contributions ::
  "real list \<Rightarrow> (string \<times> real list option) list \<Rightarrow> string list \<Rightarrow>
   exn + (string \<rightharpoonup> pdos_result)" where
  "analyze_pdos_contributions energy pdos_data atom_labels =
     pdos_loop energy atom_labels 0 pdos_data Map.empty"

section \<open>Reductions and slices\<close>

lemma np_max_Max: "xs \<noteq> [] \<Longrightarrow> np_max xs = Inr (Max (set xs))"
  by (cases xs) (simp_all add: np_max_def Max.set_eq_fold del: set_simps)

lemma np_min_Min: "xs \<noteq> [] \<Longrightarrow> np_min xs = Inr (Min (set xs))"
  by (cases xs) (simp_all add: np_min_def Min.set_eq_fold del: set_simps)

lemma np_max_Nil: "np_max [] = Inl ValueError"
  by (simp add: np_max_def)

lemma np_min_Nil: "np_min [] = Inl ValueError"
  by (simp add: np_min_def)

lemma wf_array2_row: "wf_array2 a \<Longrightarrow> i < length (rows a) \<Longrightarrow> length (rows a ! i) = ncols a"
  by (simp add: wf_array2_def list_all_length)

lemma set_flat_cols_upto:
  assumes "wf_array2 a"
  shows "set (flat (cols_upto k a)) = block a {..<k}"
proof (rule set_eqI)
  fix v
  have "v \<in> set (flat (cols_upto k a)) \<longleftrightarrow>
        (\<exists>i < length (rows a). v \<in> set (take k (rows a ! i)))"
    unfolding flat_def cols_upto_def by (simp, metis in_set_conv_nth)
  also have "\<dots> \<longleftrightarrow> (\<exists>i < length (rows a). \<exists>j. j < ncols a \<and> j < k \<and> v = rows a ! i ! j)"
  proof (rule ex_cong1, rule conj_cong[OF refl])
    fix i assume i: "i < length (rows a)"
    have len: "length (rows a ! i) = ncols a" using assms i by (rule wf_array2_row)
    show "v \<in> set (take k (rows a ! i)) \<longleftrightarrow> (\<exists>j. j < ncols a \<and> j < k \<and> v = rows a ! i ! j)"
      by (auto simp: in_set_conv_nth len)
  qed
  also have "\<dots> \<longleftrightarrow> v \<in> block a {..<k}"
    by (auto simp: block_def)
  finally show "v \<in> set (flat (cols_upto k a)) \<longleftrightarrow> v \<in> block a {..<k}" .
qed

lemma set_flat_cols_from:
  assumes "wf_array2 a"
  shows "set (flat (cols_from k a)) = block a {k..}"
proof (rule set_eqI)
  fix v
  have "v \<in> set (flat (cols_from k a)) \<longleftrightarrow>
        (\<exists>i < length (rows a). v \<in> set (drop k (rows a ! i)))"
    unfolding flat_def cols_from_def by (simp, metis in_set_conv_nth)
  also have "\<dots> \<longleftrightarrow> (\<exists>i < length (rows a). \<exists>j. j < ncols a \<and> k \<le> j \<and> v = rows a ! i ! j)"
  proof (rule ex_cong1, rule conj_cong[OF refl])
    fix i assume i: "i < length (rows a)"
    have len: "length (rows a ! i) = ncols a" using assms i by (rule wf_array2_row)
    show "v \<in> set (drop k (rows a ! i)) \<longleftrightarrow> (\<exists>j. j < ncols a \<and> k \<le> j \<and> v = rows a ! i ! j)"
    proof
      assume "v \<in> set (drop k (rows a ! i))"
      then obtain m where m: "m < ncols a - k" "v = drop k (rows a ! i) ! m"
        by (auto simp: in_set_conv_nth len)
      then have "k + m < ncols a \<and> k \<le> k + m \<and> v = rows a ! i ! (k + m)"
        by (simp add: len)
      then show "\<exists>j. j < ncols a \<and> k \<le> j \<and> v = rows a ! i ! j" by blast
    next
      assume "\<exists>j. j < ncols a \<and> k \<le> j \<and> v = rows a ! i ! j"
      then obtain j where j: "j < ncols a" "k \<le> j" "v = rows a ! i ! j" by blast
      then have "j - k < length (drop k (rows a ! i))" "drop k (rows a ! i) ! (j - k) = v"
        by (simp_all add: len)
      then show "v \<in> set (drop k (rows a ! i))"
        by (metis nth_mem)
    qed
  qed
  also have "\<dots> \<longleftrightarrow> v \<in> block a {k..}"
    by (auto simp: block_def)
  finally show "v \<in> set (flat (cols_from k a)) \<longleftrightarrow> v \<in> block a {k..}" .
qed

lemma flat_eq_Nil: "wf_array2 a \<Longrightarrow> flat a = [] \<longleftrightarrow> rows a = [] \<or> ncols a = 0"
  by (cases "rows a") (auto simp: flat_def wf_array2_def list_all_iff)

lemma wf_cols_upto: "wf_array2 a \<Longrightarrow> wf_array2 (cols_upto k a)"
  by (auto simp: wf_array2_def cols_upto_def list_all_iff)

lemma wf_cols_from: "wf_array2 a \<Longrightarrow> wf_array2 (cols_from k a)"
  by (auto simp: wf_array2_def cols_from_def list_all_iff)

lemma flat_cols_upto_Nil:
  "wf_array2 a \<Longrightarrow> flat (cols_upto k a) = [] \<longleftrightarrow> rows a = [] \<or> ncols a = 0 \<or> k = 0"
  using flat_eq_Nil[OF wf_cols_upto, of a k] by (auto simp: cols_upto_def)

lemma flat_cols_from_Nil:
  "wf_array2 a \<Longrightarrow> flat (cols_from k a) = [] \<longleftrightarrow> rows a = [] \<or> ncols a \<le> k"
  using flat_eq_Nil[OF wf_cols_from, of a k] by (auto simp: cols_from_def)

section \<open>The gap finder\<close>

text \<open>
  C1 (as amended). For every well-formed band-energy array with at least one row and more
  than 20 columns, the gap finder returns the minimum over all entries in the columns
  from index 20 on minus the maximum over all entries in the columns below index 20, and
  prints that maximum, that minimum and the gap. The split index is the constant 20 of
  the code, so the literal blocks of the specification give the gap 0.7 once the valence
  block fills the first twenty columns (the witness below).
\<close>

theorem band_gap_min_minus_max:
  assumes wf: "wf_array2 energies" and r: "rows energies \<noteq> []" and c: "20 < ncols energies"
  shows "analyze_band_gap_from_bands energies =
     (Inr (Min (block energies {20..}) - Max (block energies {..<20})),
      band_gap_report (Max (block energies {..<20})) (Min (block energies {20..})))"
proof -
  have v: "flat (cols_upto 20 energies) \<noteq> []"
    using wf r c by (simp add: flat_cols_upto_Nil)
  have k: "flat (cols_from 20 energies) \<noteq> []"
    using wf r c by (simp add: flat_cols_from_Nil)
  show ?thesis
    by (simp add: analyze_band_gap_from_bands_def np_max_Max[OF v] np_min_Min[OF k]
        set_flat_cols_upto[OF wf] set_flat_cols_from[OF wf] band_gap_report_def Let_def)
qed

lemma padded_bands_ok:
  "wf_array2 padded_bands" "rows padded_bands \<noteq> []" "20 < ncols padded_bands"
  by (simp_all add: wf_array2_def padded_bands_def)

lemma padded_bands_gap:
  "analyze_band_gap_from_bands padded_bands = (Inr (7/10), band_gap_report (-1/2) (1/5))"
  by (simp add: analyze_band_gap_from_bands_def padded_bands_def cols_upto_def cols_from_def
       flat_def np_max_def np_min_def band_gap_report_def Let_def)

theorem band_gap_min_minus_max_witness:
  "wf_array2 padded_bands \<and> rows padded_bands \<noteq> [] \<and> 20 < ncols padded_bands \<and>
   analyze_band_gap_from_bands padded_bands = (Inr (7/10), band_gap_report (-1/2) (1/5)) \<and>
   Max (block padded_bands {..<20}) = -1/2 \<and> Min (block padded_bands {20..}) = 1/5"
proof -
  have "(Inr (Min (block padded_bands {20..}) - Max (block padded_bands {..<20})),
         band_gap_report (Max (block padded_bands {..<20})) (Min (block padded_bands {20..})))
        = (Inr (7/10) :: exn + real, band_gap_report (-1/2) (1/5))"
    using band_gap_min_minus_max[OF padded_bands_ok] padded_bands_gap by simp
  then have "Max (block padded_bands {..<20}) = -1/2 \<and> Min (block padded_bands {20..}) = 1/5"
    by (simp add: band_gap_report_def)
  then show ?thesis
    using padded_bands_ok padded_bands_gap by simp
qed

text \<open>
  C1 as stated fails twice. On the literal blocks \<open>[[-1.0, -0.5]]\<close> and
  \<open>[[0.2, 0.3]]\<close>, an array of four columns, the slice from column 20 on is empty
  and the minimum raises ValueError; and an array with 21 columns and no row has a column
  on each side of the split and raises as well.
\<close>

theorem band_gap_literal_blocks_counterexample:
  "analyze_band_gap_from_bands literal_bands = (Inl ValueError, []) \<and>
   wf_array2 rowless_bands \<and> 20 < ncols rowless_bands \<and>
   analyze_band_gap_from_bands rowless_bands = (Inl ValueError, [])"
  by (simp add: analyze_band_gap_from_bands_def literal_bands_def rowless_bands_def
       wf_array2_def cols_upto_def cols_from_def flat_def np_max_def np_min_def)

text \<open>
  C7 (as amended). On a well-formed band-energy array the gap finder raises exactly when
  the array has no row or at most 20 columns, and what it raises then is the ValueError of
  a reduction over an empty array, before anything is printed; with at least one row and
  more than 20 columns it returns a gap.
\<close>

theorem band_gap_raises_iff:
  assumes wf: "wf_array2 energies"
  shows "if rows energies = [] \<or> ncols energies \<le> 20
     then analyze_band_gap_from_bands energies = (Inl ValueError, [])
     else \<exists>g. fst (analyze_band_gap_from_bands energies) = Inr g"
proof (cases "rows energies = [] \<or> ncols energies \<le> 20")
  case True
  show ?thesis
  proof (cases "flat (cols_upto 20 energies) = []")
    case True
    then show ?thesis using \<open>rows energies = [] \<or> ncols energies \<le> 20\<close>
      by (simp add: analyze_band_gap_from_bands_def np_max_Nil)
  next
    case False
    have "flat (cols_from 20 energies) = []"
      using True wf by (simp add: flat_cols_from_Nil)
    then show ?thesis using True False
      by (simp add: analyze_band_gap_from_bands_def np_max_Max np_min_Nil)
  qed
next
  case False
  have v: "flat (cols_upto 20 energies) \<noteq> []"
    using wf False by (simp add: flat_cols_upto_Nil)
  have k: "flat (cols_from 20 energies) \<noteq> []"
    using wf False by (simp add: flat_cols_from_Nil)
  show ?thesis using False
    by (simp add: analyze_band_gap_from_bands_def np_max_Max[OF v] np_min_Min[OF k] Let_def)
qed

theorem band_gap_raises_iff_witness:
  "wf_array2 narrow_bands \<and> ncols narrow_bands \<le> 20 \<and>
   analyze_band_gap_from_bands narrow_bands = (Inl ValueError, []) \<and>
   wf_array2 padded_bands \<and> rows padded_bands \<noteq> [] \<and> \<not> ncols padded_bands \<le> 20 \<and>
   (\<exists>g. fst (analyze_band_gap_from_bands padded_bands) = Inr g)"
proof -
  have n: "wf_array2 narrow_bands" "ncols narrow_bands \<le> 20"
    by (simp_all add: wf_array2_def narrow_bands_def)
  have p: "\<not> (rows padded_bands = [] \<or> ncols padded_bands \<le> 20)"
    using padded_bands_ok by simp
  show ?thesis
    using band_gap_raises_iff[OF n(1)] n band_gap_raises_iff[OF padded_bands_ok(1)] p
      padded_bands_ok by simp
qed

text \<open>
  C7 as stated fails on an array without rows: it has 21 columns, so one column lies at
  the split index 20 and twenty lie below it, and both reductions are over empty arrays.
\<close>

theorem band_gap_rowless_counterexample:
  "wf_array2 rowless_bands \<and> ncols rowless_bands = 21 \<and> nrows rowless_bands = 0 \<and>
   fst (analyze_band_gap_from_bands rowless_bands) = Inl ValueError"
  by (simp add: analyze_band_gap_from_bands_def rowless_bands_def nrows_def
       wf_array2_def cols_upto_def cols_from_def flat_def np_max_def np_min_def)

section \<open>The trapezoidal rule\<close>

text \<open>
  On arrays of equal length NumPy's computation is the composite trapezoidal sum of the
  specification, and the sum of an odd integrand over a mirrored grid vanishes.
\<close>

lemma np_trapz_sum:
  assumes "length x = length y"
  shows "np_trapz y x = Inr (trapezoid_sum y x)"
proof -
  let ?n = "length x - 1"
  have lt: "length (tl x) = ?n" "length (butlast x) = ?n" "length (tl y) = ?n" "length (butlast y) = ?n"
    using assms by simp_all
  let ?p = "map2 (*) (np_diff x) (map2 (+) (tl y) (butlast y))"
  have leq: "length (np_diff x) = length (map2 (+) (tl y) (butlast y))"
    using assms by (simp add: np_diff_def)
  have b: "broadcast2 (*) (np_diff x) (map2 (+) (tl y) (butlast y)) = Inr ?p"
    by (simp only: broadcast2_def leq refl if_True)
  have len: "length ?p = ?n" using assms by (simp add: np_diff_def)
  have nth: "?p ! i = (x ! (i + 1) - x ! i) * (y ! i + y ! (i + 1))" if "i < ?n" for i
    using that assms by (simp add: np_diff_def lt nth_tl nth_butlast add.commute)
  have "sum_list (map (\<lambda>v. v / 2) ?p) = (\<Sum>i<?n. ?p ! i / 2)"
    using len by (simp add: sum_list_sum_nth atLeast0LessThan del: map_map)
  also have "\<dots> = trapezoid_sum y x"
    unfolding trapezoid_sum_def by (rule sum.cong) (simp_all add: nth)
  finally show ?thesis
    by (simp add: np_trapz_def b Let_def)
qed

lemma trapezoid_sum_symmetric:
  assumes len: "length x = length y"
    and sx: "\<And>i. i < length x \<Longrightarrow> x ! i = - x ! (length x - 1 - i)"
    and sy: "\<And>i. i < length x \<Longrightarrow> y ! i = y ! (length x - 1 - i)"
  shows "trapezoid_sum (map2 (*) x y) x = 0"
proof -
  define n where "n = length x - 1"
  define g where "g i = x ! i * y ! i" for i
  define t where "t i = (x ! (i + 1) - x ! i) * (g i + g (i + 1)) / 2" for i
  have S: "trapezoid_sum (map2 (*) x y) x = (\<Sum>i<n. t i)"
    unfolding trapezoid_sum_def n_def[symmetric]
    by (rule sum.cong) (use len in \<open>simp_all add: t_def g_def n_def\<close>)
  have idx: "length x - 1 - (n - i) = i" "n - i < length x" if "i \<le> n" "0 < length x" for i
    using that by (simp_all add: n_def)
  have refl_x: "x ! (n - i) = - x ! i" if "i \<le> n" "0 < length x" for i
    using sx[OF idx(2)[OF that]] idx(1)[OF that] by simp
  have refl_y: "y ! (n - i) = y ! i" if "i \<le> n" "0 < length x" for i
    using sy[OF idx(2)[OF that]] idx(1)[OF that] by simp
  have refl_g: "g (n - i) = - g i" if "i \<le> n" "0 < length x" for i
    using refl_x[OF that] refl_y[OF that] by (simp add: g_def)
  have flip: "t (n - Suc i) = - t i" if "i < n" for i
  proof -
    have pos: "0 < length x" using that by (cases x) (simp_all add: n_def)
    have e1: "Suc (n - Suc i) = n - i" using that by simp
    have "t (n - Suc i) = (x ! (n - i) - x ! (n - Suc i)) * (g (n - Suc i) + g (n - i)) / 2"
      by (simp add: t_def e1)
    also have "\<dots> = (- x ! i + x ! Suc i) * (- g (Suc i) - g i) / 2"
      using refl_x[of i] refl_x[of "Suc i"] refl_g[of i] refl_g[of "Suc i"] that pos by simp
    also have "\<dots> = - ((x ! (i + 1) - x ! i) * (g i + g (i + 1))) / 2"
      by (simp add: algebra_simps)
    also have "\<dots> = - t i"
      by (simp add: t_def)
    finally show ?thesis .
  qed
  have "(\<Sum>i<n. t i) = (\<Sum>i<n. t (n - Suc i))"
    by (rule sum.nat_diff_reindex[symmetric])
  also have "\<dots> = (\<Sum>i<n. - t i)"
    by (rule sum.cong) (simp_all add: flip)
  also have "\<dots> = - (\<Sum>i<n. t i)"
    by (simp add: sum_negf)
  finally have "(\<Sum>i<n. t i) = 0" by simp
  then show ?thesis using S by simp
qed

section \<open>The weighted-integral analyzer\<close>

lemma analyze_phonon_general:
  assumes len: "length frequency = length dos"
  shows "analyze_phonon_properties frequency dos =
     (if frequency = [] then (Inl ValueError, [])
      else (Inr (Max (set frequency),
                 np_div (trapezoid_sum (map2 (*) frequency dos) frequency)
                        (trapezoid_sum dos frequency),
                 trapezoid_sum dos frequency),
            phonon_report (Max (set frequency))
              (np_div (trapezoid_sum (map2 (*) frequency dos) frequency)
                      (trapezoid_sum dos frequency))
              (trapezoid_sum dos frequency)))"
proof -
  have t: "np_trapz dos frequency = Inr (trapezoid_sum dos frequency)"
    using len by (rule np_trapz_sum)
  have b: "broadcast2 (*) frequency dos = Inr (map2 (*) frequency dos)"
    using len by (simp add: broadcast2_def)
  have w: "np_trapz (map2 (*) frequency dos) frequency =
           Inr (trapezoid_sum (map2 (*) frequency dos) frequency)"
    by (rule np_trapz_sum) (simp add: len)
  show ?thesis
  proof (cases "frequency = []")
    case True
    show ?thesis unfolding analyze_phonon_properties_def t by (simp add: True np_max_Nil)
  next
    case False
    then show ?thesis
      by (simp add: analyze_phonon_properties_def t b w np_max_Max Let_def)
  qed
qed

text \<open>
  C2. For every curve with at least two points and a nonzero trapezoidal integral of
  \<open>y\<close> over \<open>x\<close>, the analyzer computes the total as the composite trapezoidal sum
  (any spacing of \<open>x\<close>) and returns as average frequency the trapezoidal integral of
  \<open>x * y\<close> divided by that total, next to the maximum of \<open>x\<close>.
\<close>

theorem phonon_average_is_weighted_ratio:
  assumes len: "length frequency = length dos" and two: "2 \<le> length frequency"
    and nz: "trapezoid_sum dos frequency \<noteq> 0"
  shows "analyze_phonon_properties frequency dos =
     (Inr (Max (set frequency),
           Finite (trapezoid_sum (map2 (*) frequency dos) frequency / trapezoid_sum dos frequency),
           trapezoid_sum dos frequency),
      phonon_report (Max (set frequency))
        (Finite (trapezoid_sum (map2 (*) frequency dos) frequency / trapezoid_sum dos frequency))
        (trapezoid_sum dos frequency))"
proof -
  have "frequency \<noteq> []" using two by auto
  then show ?thesis
    using analyze_phonon_general[OF len] nz by (simp add: np_div_def)
qed

lemma ramp_eval:
  "analyze_phonon_properties [0, 1, 3] [1, 1, 2] = (Inr (3, Finite (15/8), 4), phonon_report 3 (Finite (15/8)) 4)"
  by (simp add: analyze_phonon_properties_def np_trapz_def np_diff_def broadcast2_def np_max_def
        np_div_def Let_def)

theorem phonon_average_is_weighted_ratio_witness:
  "length [0, 1, 3 :: real] = length [1, 1, 2 :: real] \<and> 2 \<le> length [0, 1, 3 :: real] \<and>
   trapezoid_sum [1, 1, 2] [0, 1, 3] = 4 \<and>
   trapezoid_sum [0, 1, 6] [0, 1, 3] = 15 / 2 \<and>
   analyze_phonon_properties [0, 1, 3] [1, 1, 2] =
     (Inr (3, Finite (15/8), 4), phonon_report 3 (Finite (15/8)) 4)"
proof -
  have s: "trapezoid_sum [1, 1, 2] [0, 1, 3] = 4"
    by (simp add: trapezoid_sum_def lessThan_Suc numeral_2_eq_2)
  have w: "trapezoid_sum [0, 1, 6] [0, 1, 3] = 15 / 2"
    by (simp add: trapezoid_sum_def lessThan_Suc numeral_2_eq_2)
  have "analyze_phonon_properties [0, 1, 3] [1, 1, 2] =
     (Inr (Max (set [0, 1, 3]),
           Finite (trapezoid_sum (map2 (*) [0, 1, 3] [1, 1, 2]) [0, 1, 3] / trapezoid_sum [1, 1, 2] [0, 1, 3]),
           trapezoid_sum [1, 1, 2] [0, 1, 3]),
      phonon_report (Max (set [0, 1, 3]))
        (Finite (trapezoid_sum (map2 (*) [0, 1, 3] [1, 1, 2]) [0, 1, 3] / trapezoid_sum [1, 1, 2] [0, 1, 3]))
        (trapezoid_sum [1, 1, 2] [0, 1, 3]))"
    by (rule phonon_average_is_weighted_ratio) (simp_all add: s)
  then have "analyze_phonon_properties [0, 1, 3] [1, 1, 2] =
     (Inr (3, Finite (15/8), 4), phonon_report 3 (Finite (15/8)) 4)"
    by (simp add: s w)
  then show ?thesis by (simp add: s w)
qed

text \<open>
  C3 (as amended). The analyzer has no guard for a zero integral. For every curve whose
  trapezoidal integral is zero it performs the division: on a curve with at least one
  point it returns normally, with the maximum of \<open>x\<close>, a non-finite average and the
  total 0, and prints its three lines; only the curve without points raises, and what it
  raises is the ValueError of the maximum over an empty array.
\<close>

theorem phonon_zero_integral_unguarded:
  assumes len: "length frequency = length dos"
    and z: "trapezoid_sum dos frequency = 0"
  shows "analyze_phonon_properties frequency dos =
     (if frequency = [] then (Inl ValueError, [])
      else (Inr (Max (set frequency), NonFinite, 0),
            phonon_report (Max (set frequency)) NonFinite 0))"
  using analyze_phonon_general[OF len] z by (simp add: np_div_def)

theorem phonon_zero_integral_unguarded_witness:
  "length [0, 1 :: real] = length [0, 0 :: real] \<and> trapezoid_sum [0, 0] [0, 1] = 0 \<and>
   analyze_phonon_properties [0, 1] [0, 0] = (Inr (1, NonFinite, 0), phonon_report 1 NonFinite 0) \<and>
   length ([] :: real list) = length ([] :: real list) \<and> trapezoid_sum [] [] = 0 \<and>
   analyze_phonon_properties [] [] = (Inl ValueError, [])"
proof -
  have a: "trapezoid_sum [0, 0] [0, 1] = 0" "trapezoid_sum [] [] = 0"
    by (simp_all add: trapezoid_sum_def)
  show ?thesis
    using phonon_zero_integral_unguarded[of "[0, 1]" "[0, 0]"]
      phonon_zero_integral_unguarded[of "[]" "[]"] a
    by simp
qed

text \<open>
  C3 as stated fails on the curve \<open>x = [0, 1]\<close>, \<open>y = [0, 0]\<close>: its integral is zero
  and the analyzer returns a result instead of an error.
\<close>

theorem phonon_zero_integral_counterexample:
  "trapezoid_sum [0, 0] [0, 1] = 0 \<and>
   analyze_phonon_properties [0, 1] [0, 0] = (Inr (1, NonFinite, 0), phonon_report 1 NonFinite 0)"
  by (simp add: trapezoid_sum_def analyze_phonon_properties_def np_trapz_def np_diff_def
        broadcast2_def np_max_def np_div_def Let_def)

lemma mirrored_nth:
  assumes "x = map uminus (rev x)"
  shows "\<forall>i<length x. x ! i = - x ! (length x - 1 - i)"
proof (intro allI impI)
  fix i assume i: "i < length x"
  have "x ! i = map uminus (rev x) ! i" using assms by simp
  also have "\<dots> = - x ! (length x - 1 - i)" using i by (simp add: rev_nth)
  finally show "x ! i = - x ! (length x - 1 - i)" .
qed

lemma palindrome_nth:
  assumes "y = rev y"
  shows "\<forall>i<length y. y ! i = y ! (length y - 1 - i)"
proof (intro allI impI)
  fix i assume i: "i < length y"
  have "y ! i = rev y ! i" using assms by simp
  also have "\<dots> = y ! (length y - 1 - i)" using i by (simp add: rev_nth)
  finally show "y ! i = y ! (length y - 1 - i)" .
qed

text \<open>
  C8. For every curve on a grid mirrored at 0 (\<open>x[i] = -x[n-1-i]\<close>) with mirrored
  values (\<open>y[i] = y[n-1-i]\<close>), the product \<open>x * y\<close> is formed without broadcasting and
  its trapezoidal integral over \<open>x\<close>, the numerator of the average frequency, is 0 in
  exact arithmetic; the analyzer divides this 0 by the total.
\<close>

theorem symmetric_curve_weighted_integral_zero:
  assumes len: "length frequency = length dos"
    and sx: "\<forall>i<length frequency. frequency ! i = - frequency ! (length frequency - 1 - i)"
    and sy: "\<forall>i<length dos. dos ! i = dos ! (length dos - 1 - i)"
  shows "broadcast2 (*) frequency dos = Inr (map2 (*) frequency dos) \<and>
         np_trapz (map2 (*) frequency dos) frequency = Inr 0 \<and>
         (frequency \<noteq> [] \<longrightarrow>
            fst (analyze_phonon_properties frequency dos) =
              Inr (Max (set frequency), np_div 0 (trapezoid_sum dos frequency),
                   trapezoid_sum dos frequency))"
proof -
  have z: "trapezoid_sum (map2 (*) frequency dos) frequency = 0"
  proof (rule trapezoid_sum_symmetric[OF len])
    fix i assume i: "i < length frequency"
    show "frequency ! i = - frequency ! (length frequency - 1 - i)"
      using sx i by blast
    show "dos ! i = dos ! (length frequency - 1 - i)"
      using sy i unfolding len by blast
  qed
  have w: "np_trapz (map2 (*) frequency dos) frequency =
           Inr (trapezoid_sum (map2 (*) frequency dos) frequency)"
    by (rule np_trapz_sum) (simp add: len)
  show ?thesis
    using analyze_phonon_general[OF len] z w len by (simp add: broadcast2_def)
qed

theorem symmetric_curve_weighted_integral_zero_witness:
  "length [-2, -1, 1, 2 :: real] = length [3, 5, 5, 3 :: real] \<and>
   broadcast2 (*) [-2, -1, 1, 2] [3, 5, 5, 3] = Inr [-6, -5, 5, 6] \<and>
   np_trapz [-6, -5, 5, 6] [-2, -1, 1, 2] = Inr 0 \<and>
   fst (analyze_phonon_properties [-2, -1, 1, 2] [3, 5, 5, 3]) = Inr (2, Finite 0, 18)"
proof -
  have sx: "\<forall>i<length [-2, -1, 1, 2 :: real].
      [-2, -1, 1, 2 :: real] ! i = - [-2, -1, 1, 2] ! (length [-2, -1, 1, 2 :: real] - 1 - i)"
    by (rule mirrored_nth) simp
  have sy: "\<forall>i<length [3, 5, 5, 3 :: real].
      [3, 5, 5, 3 :: real] ! i = [3, 5, 5, 3] ! (length [3, 5, 5, 3 :: real] - 1 - i)"
    by (rule palindrome_nth) simp
  have e: "fst (analyze_phonon_properties [-2, -1, 1, 2] [3, 5, 5, 3]) = Inr (2, Finite 0, 18)"
    by (simp add: analyze_phonon_properties_def np_trapz_def np_diff_def broadcast2_def np_max_def
        np_div_def Let_def)
  have "broadcast2 (*) [-2, -1, 1, 2] [3, 5, 5, 3] = Inr (map2 (*) [-2, -1, 1, 2] [3, 5, 5, 3 :: real]) \<and>
        np_trapz (map2 (*) [-2, -1, 1, 2] [3, 5, 5, 3]) [-2, -1, 1, 2 :: real] = Inr 0"
    using symmetric_curve_weighted_integral_zero[OF _ sx sy] by simp
  then show ?thesis using e by simp
qed


section \<open>First extremum\<close>

lemma arg_scan_first_best:
  assumes asym: "\<And>a b. better a b \<Longrightarrow> \<not> better b a"
    and tr: "\<And>a b c. better a b \<Longrightarrow> \<not> better c b \<Longrightarrow> better a c"
  shows "k < length ps \<Longrightarrow> best = ps ! k \<Longrightarrow> i = length ps \<Longrightarrow>
     (\<forall>j<length ps. \<not> better (ps ! j) (ps ! k)) \<Longrightarrow> (\<forall>j<k. better (ps ! k) (ps ! j)) \<Longrightarrow>
     arg_scan better best k i xs < length (ps @ xs) \<and>
     (\<forall>j<length (ps @ xs). \<not> better ((ps @ xs) ! j) ((ps @ xs) ! arg_scan better best k i xs)) \<and>
     (\<forall>j<arg_scan better best k i xs. better ((ps @ xs) ! arg_scan better best k i xs) ((ps @ xs) ! j))"
proof (induction xs arbitrary: ps best k i)
  case Nil
  then show ?case by simp
next
  case (Cons x xs)
  let ?ps = "ps @ [x]"
  have app: "?ps @ xs = ps @ x # xs" by simp
  show ?case
  proof (cases "better x best")
    case True
    have a: "\<forall>j<length ?ps. \<not> better (?ps ! j) (?ps ! i)"
    proof (intro allI impI)
      fix j assume "j < length ?ps"
      then consider "j < length ps" | "j = length ps" by force
      then show "\<not> better (?ps ! j) (?ps ! i)"
      proof cases
        case 1
        have "\<not> better (ps ! j) best" using Cons.prems 1 by simp
        moreover have "\<not> better best x" using asym[OF True] .
        ultimately have "\<not> better (ps ! j) x" using tr[of "ps ! j" x best] by blast
        then show ?thesis using 1 Cons.prems by (simp add: nth_append)
      next
        case 2
        have "\<not> better x x" using asym[of x x] by blast
        then show ?thesis using 2 Cons.prems by (simp add: nth_append)
      qed
    qed
    have b: "\<forall>j<i. better (?ps ! i) (?ps ! j)"
    proof (intro allI impI)
      fix j assume j: "j < i"
      have "\<not> better (ps ! j) best" using Cons.prems j by simp
      then have "better x (ps ! j)" using tr[OF True] by blast
      then show "better (?ps ! i) (?ps ! j)" using j Cons.prems by (simp add: nth_append)
    qed
    have "arg_scan better x i (Suc i) xs < length (?ps @ xs) \<and>
     (\<forall>j<length (?ps @ xs). \<not> better ((?ps @ xs) ! j) ((?ps @ xs) ! arg_scan better x i (Suc i) xs)) \<and>
     (\<forall>j<arg_scan better x i (Suc i) xs. better ((?ps @ xs) ! arg_scan better x i (Suc i) xs) ((?ps @ xs) ! j))"
      by (rule Cons.IH) (use Cons.prems a b in \<open>simp_all add: nth_append\<close>)
    then show ?thesis unfolding app using True by simp
  next
    case False
    have a: "\<forall>j<length ?ps. \<not> better (?ps ! j) (?ps ! k)"
    proof (intro allI impI)
      fix j assume "j < length ?ps"
      then consider "j < length ps" | "j = length ps" by force
      then show "\<not> better (?ps ! j) (?ps ! k)"
        using Cons.prems False by cases (simp_all add: nth_append)
    qed
    have b: "\<forall>j<k. better (?ps ! k) (?ps ! j)"
      using Cons.prems by (simp add: nth_append)
    have "arg_scan better best k (Suc i) xs < length (?ps @ xs) \<and>
     (\<forall>j<length (?ps @ xs). \<not> better ((?ps @ xs) ! j) ((?ps @ xs) ! arg_scan better best k (Suc i) xs)) \<and>
     (\<forall>j<arg_scan better best k (Suc i) xs. better ((?ps @ xs) ! arg_scan better best k (Suc i) xs) ((?ps @ xs) ! j))"
      by (rule Cons.IH) (use Cons.prems a b in \<open>simp_all add: nth_append\<close>)
    then show ?thesis unfolding app using False by simp
  qed
qed

lemma np_argmax_peak:
  assumes "xs \<noteq> []"
  shows "\<exists>i. np_argmax xs = Inr i \<and> peak_in xs 0 (length xs) i"
proof -
  obtain x r where xs: "xs = x # r" using assms by (cases xs) auto
  let ?i = "arg_scan (\<lambda>a b. b < a) x 0 1 r"
  have "?i < length ([x] @ r) \<and>
     (\<forall>j<length ([x] @ r). \<not> (([x] @ r) ! ?i < ([x] @ r) ! j)) \<and>
     (\<forall>j<?i. ([x] @ r) ! j < ([x] @ r) ! ?i)"
    by (rule arg_scan_first_best[where better = "\<lambda>a b. b < a" and ps = "[x]"]) auto
  then have "peak_in xs 0 (length xs) ?i"
    by (simp add: peak_in_def xs not_less)
  moreover have "np_argmax xs = Inr ?i" by (simp add: np_argmax_def xs)
  ultimately show ?thesis by blast
qed

lemma np_argmin_closest:
  assumes "xs \<noteq> []"
  shows "\<exists>f. np_argmin (np_abs xs) = Inr f \<and> closest_to_zero xs f"
proof -
  obtain x r where xs: "map abs xs = x # r" using assms by (cases xs) auto
  let ?i = "arg_scan (\<lambda>a b. a < b) x 0 1 r"
  have "?i < length ([x] @ r) \<and>
     (\<forall>j<length ([x] @ r). \<not> (([x] @ r) ! j < ([x] @ r) ! ?i)) \<and>
     (\<forall>j<?i. ([x] @ r) ! ?i < ([x] @ r) ! j)"
    by (rule arg_scan_first_best[where better = "\<lambda>a b. a < b" and ps = "[x]"]) auto
  then have *: "?i < length (map abs xs) \<and>
     (\<forall>j<length (map abs xs). \<not> (map abs xs ! j < map abs xs ! ?i)) \<and>
     (\<forall>j<?i. map abs xs ! ?i < map abs xs ! j)"
    unfolding xs by simp
  have "closest_to_zero xs ?i"
    unfolding closest_to_zero_def using * by (auto simp: not_less)
  moreover have "np_argmin (np_abs xs) = Inr ?i" by (simp add: np_argmin_def np_abs_def xs)
  ultimately show ?thesis by blast
qed

lemma trapezoid_sum_split:
  assumes len: "length x = length y" and one: "1 \<le> f" and f: "f < length x"
  shows "trapezoid_sum (take f y) (take f x) + trapezoid_sum (drop f y) (drop f x) =
         trapezoid_sum y x - (x ! f - x ! (f - 1)) * (y ! (f - 1) + y ! f) / 2"
proof -
  define t where "t i = (x ! (i + 1) - x ! i) * (y ! i + y ! (i + 1)) / 2" for i
  define n where "n = length x"
  have fy: "f < length y" using f len by simp
  have lo: "trapezoid_sum (take f y) (take f x) = sum t {0..<f - 1}"
    unfolding trapezoid_sum_def atLeast0LessThan
    by (rule sum.cong) (use f fy in \<open>simp_all add: t_def min_def\<close>)
  have "trapezoid_sum (drop f y) (drop f x) = (\<Sum>i = 0..<n - 1 - f. t (i + f))"
    unfolding trapezoid_sum_def atLeast0LessThan
    by (rule sum.cong) (use f fy len in \<open>simp_all add: t_def n_def add.commute add.left_commute\<close>)
  also have "\<dots> = sum t {0 + f..<n - 1 - f + f}"
    by (rule sum.shift_bounds_nat_ivl[symmetric])
  also have "\<dots> = sum t {f..<n - 1}"
    using f by (simp add: n_def)
  finally have hi: "trapezoid_sum (drop f y) (drop f x) = sum t {f..<n - 1}" .
  have whole: "trapezoid_sum y x = sum t {0..<n - 1}"
    by (simp add: trapezoid_sum_def atLeast0LessThan t_def n_def)
  have "sum t {0..<n - 1} = sum t {0..<f} + sum t {f..<n - 1}"
    using f by (simp add: n_def sum.atLeastLessThan_concat)
  also have "sum t {0..<f} = sum t {0..<f - 1} + t (f - 1)"
    using one by (cases f) simp_all
  finally have "sum t {0..<n - 1} = sum t {0..<f - 1} + t (f - 1) + sum t {f..<n - 1}" .
  moreover have "t (f - 1) = (x ! f - x ! (f - 1)) * (y ! (f - 1) + y ! f) / 2"
    using one by (simp add: t_def)
  ultimately show ?thesis using lo hi whole by simp
qed

lemma peak_in_take:
  assumes p: "peak_in (take f ys) 0 (length (take f ys)) i" and f: "f \<le> length ys"
  shows "peak_in ys 0 f i"
proof -
  have l: "length (take f ys) = f" using f by simp
  have i: "i < f" using p unfolding peak_in_def l by blast
  have le: "take f ys ! j \<le> take f ys ! i" if "j < f" for j
    using p that unfolding peak_in_def l by blast
  have lt: "take f ys ! j < take f ys ! i" if "j < i" for j
    using p that unfolding peak_in_def l by blast
  show ?thesis
    unfolding peak_in_def
  proof (intro conjI allI impI)
    show "0 \<le> i" by simp
    show "i < f" by (rule i)
  next
    fix j assume "0 \<le> j \<and> j < f"
    then show "ys ! j \<le> ys ! i" using le[of j] i by simp
  next
    fix j assume "0 \<le> j \<and> j < i"
    then show "ys ! j < ys ! i" using lt[of j] i by simp
  qed
qed

lemma peak_in_drop:
  assumes p: "peak_in (drop f ys) 0 (length (drop f ys)) k" and f: "f \<le> length ys"
  shows "peak_in ys f (length ys) (f + k)"
proof -
  have l: "length (drop f ys) = length ys - f" by simp
  have k: "k < length ys - f" using p unfolding peak_in_def l by blast
  have le: "drop f ys ! j \<le> drop f ys ! k" if "j < length ys - f" for j
    using p that unfolding peak_in_def l by blast
  have lt: "drop f ys ! j < drop f ys ! k" if "j < k" for j
    using p that unfolding peak_in_def l by blast
  have nth: "drop f ys ! j = ys ! (f + j)" if "j < length ys - f" for j
    using that f by simp
  show ?thesis
    unfolding peak_in_def
  proof (intro conjI allI impI)
    show "f \<le> f + k" by simp
    show "f + k < length ys" using k by arith
  next
    fix j assume j: "f \<le> j \<and> j < length ys"
    then have "j - f < length ys - f" by arith
    then have "ys ! (f + (j - f)) \<le> ys ! (f + k)" using le[of "j - f"] nth k by simp
    then show "ys ! j \<le> ys ! (f + k)" using j by simp
  next
    fix j assume j: "f \<le> j \<and> j < f + k"
    then have jk: "j - f < k" by arith
    then have "j - f < length ys - f" using k by arith
    then have "ys ! (f + (j - f)) < ys ! (f + k)" using lt[OF jk] nth k by simp
    then show "ys ! j < ys ! (f + k)" using j by simp
  qed
qed

lemma peak_in_unique:
  assumes "peak_in ys lo hi i" and "peak_in ys lo hi k"
  shows "i = k"
proof (rule ccontr)
  assume "i \<noteq> k"
  then consider "i < k" | "k < i" by linarith
  then show False
  proof cases
    case 1
    have "ys ! i < ys ! k" using assms 1 unfolding peak_in_def by blast
    moreover have "ys ! k \<le> ys ! i" using assms unfolding peak_in_def by blast
    ultimately show False by simp
  next
    case 2
    have "ys ! k < ys ! i" using assms 2 unfolding peak_in_def by blast
    moreover have "ys ! i \<le> ys ! k" using assms unfolding peak_in_def by blast
    ultimately show False by simp
  qed
qed

lemma fermi_index_closest:
  assumes "np_argmin (np_abs energy) = Inr f"
  shows "closest_to_zero energy f"
proof (cases "energy = []")
  case True
  then show ?thesis using assms by (simp add: np_argmin_def np_abs_def)
next
  case False
  then show ?thesis using np_argmin_closest[OF False] assms by auto
qed

lemma analyze_pdos_curve_result:
  assumes len: "length energy = length pdos"
    and fi: "np_argmin (np_abs energy) = Inr f" and one: "1 \<le> f"
  shows "\<exists>iv ic. peak_in pdos 0 f iv \<and> peak_in pdos f (length pdos) ic \<and>
     analyze_pdos_curve energy pdos =
       Inr \<lparr>valence_contribution = trapezoid_sum (take f pdos) (take f energy),
            conduction_contribution = trapezoid_sum (drop f pdos) (drop f energy),
            total_contribution = trapezoid_sum (take f pdos) (take f energy) +
                                 trapezoid_sum (drop f pdos) (drop f energy),
            valence_peak_energy = energy ! iv,
            conduction_peak_energy = energy ! ic,
            max_pdos = Max (set pdos)\<rparr>"
proof -
  have f: "f < length energy" using fermi_index_closest[OF fi] by (simp add: closest_to_zero_def)
  then have fp: "f < length pdos" using len by simp
  have ne: "take f pdos \<noteq> []" "drop f pdos \<noteq> []" "pdos \<noteq> []"
    using fp one by auto
  obtain iv where iv: "np_argmax (take f pdos) = Inr iv"
      "peak_in (take f pdos) 0 (length (take f pdos)) iv"
    using np_argmax_peak[OF ne(1)] by blast
  obtain k where k: "np_argmax (drop f pdos) = Inr k"
      "peak_in (drop f pdos) 0 (length (drop f pdos)) k"
    using np_argmax_peak[OF ne(2)] by blast
  have pv: "peak_in pdos 0 f iv" using peak_in_take[OF iv(2)] fp by simp
  have pc: "peak_in pdos f (length pdos) (f + k)" using peak_in_drop[OF k(2)] fp by simp
  have tv: "np_trapz (take f pdos) (take f energy) = Inr (trapezoid_sum (take f pdos) (take f energy))"
    by (rule np_trapz_sum) (simp add: len)
  have tc: "np_trapz (drop f pdos) (drop f energy) = Inr (trapezoid_sum (drop f pdos) (drop f energy))"
    by (rule np_trapz_sum) (simp add: len)
  have i1: "np_index energy iv = Inr (energy ! iv)"
    using pv f by (simp add: np_index_def peak_in_def)
  have i2: "np_index energy (f + k) = Inr (energy ! (f + k))"
    using pc len by (simp add: np_index_def peak_in_def)
  have "analyze_pdos_curve energy pdos =
       Inr \<lparr>valence_contribution = trapezoid_sum (take f pdos) (take f energy),
            conduction_contribution = trapezoid_sum (drop f pdos) (drop f energy),
            total_contribution = trapezoid_sum (take f pdos) (take f energy) +
                                 trapezoid_sum (drop f pdos) (drop f energy),
            valence_peak_energy = energy ! iv,
            conduction_peak_energy = energy ! (f + k),
            max_pdos = Max (set pdos)\<rparr>"
    by (simp add: analyze_pdos_curve_def fi tv tc iv(1) k(1) i1 i2 np_max_Max[OF ne(3)] Let_def)
  then show ?thesis using pv pc by blast
qed

lemma single_atom:
  "analyze_pdos_contributions energy [(atom, Some pdos)] [label] =
     (case analyze_pdos_curve energy pdos of Inl e \<Rightarrow> Inl e | Inr r \<Rightarrow> Inr [label \<mapsto> r])"
  by (simp add: analyze_pdos_contributions_def split: sum.splits)

section \<open>The peak locator and the contributions\<close>

text \<open>
  C4. For every curve whose Fermi index \<open>f\<close>, the first index of the energy closest to
  0, has at least one point before it, the entry of the analysis holds as valence peak the
  energy at the first index of the maximum PDOS among the indices below \<open>f\<close>, and as
  conduction peak the energy at the first index of the maximum PDOS among the indices
  from \<open>f\<close> on. On \<open>x = [-2, -1, 0, 1, 2]\<close>, \<open>y = [1, 5, 2, 8, 3]\<close> the Fermi index
  is 2 and the peaks are at \<open>x = -1\<close> and \<open>x = 1\<close> (the witness below).
\<close>

theorem pdos_peaks_first_maximum:
  assumes len: "length energy = length pdos"
    and fi: "np_argmin (np_abs energy) = Inr f" and one: "1 \<le> f"
  shows "closest_to_zero energy f \<and>
     (\<exists>r iv ic. analyze_pdos_curve energy pdos = Inr r \<and>
        analyze_pdos_contributions energy [(atom, Some pdos)] [label] = Inr [label \<mapsto> r] \<and>
        peak_in pdos 0 f iv \<and> valence_peak_energy r = energy ! iv \<and>
        peak_in pdos f (length pdos) ic \<and> conduction_peak_energy r = energy ! ic)"
proof -
  obtain iv ic where p: "peak_in pdos 0 f iv" "peak_in pdos f (length pdos) ic"
    and r: "analyze_pdos_curve energy pdos =
       Inr \<lparr>valence_contribution = trapezoid_sum (take f pdos) (take f energy),
            conduction_contribution = trapezoid_sum (drop f pdos) (drop f energy),
            total_contribution = trapezoid_sum (take f pdos) (take f energy) +
                                 trapezoid_sum (drop f pdos) (drop f energy),
            valence_peak_energy = energy ! iv,
            conduction_peak_energy = energy ! ic,
            max_pdos = Max (set pdos)\<rparr>"
    using analyze_pdos_curve_result[OF len fi one] by blast
  show ?thesis
    using fermi_index_closest[OF fi] p by (auto simp: single_atom r)
qed

lemma literal_fermi: "np_argmin (np_abs [-2, -1, 0, 1, 2]) = Inr 2"
  by (simp add: np_argmin_def np_abs_def)

lemma literal_curve:
  "analyze_pdos_curve [-2, -1, 0, 1, 2] [1, 5, 2, 8, 3] =
     Inr \<lparr>valence_contribution = 3, conduction_contribution = 21/2, total_contribution = 27/2,
          valence_peak_energy = -1, conduction_peak_energy = 1, max_pdos = 8\<rparr>"
  by (simp add: analyze_pdos_curve_def literal_fermi np_trapz_def np_diff_def broadcast2_def
        np_argmax_def np_index_def np_max_def Let_def)

lemma literal_peaks:
  "peak_in [1, 5, 2, 8, 3] 0 2 1" "peak_in [1, 5, 2, 8, 3] 2 5 3"
  by (auto simp: peak_in_def nth_Cons' numeral_eq_Suc less_Suc_eq_le le_Suc_eq)

theorem pdos_peaks_first_maximum_witness:
  "length [-2, -1, 0, 1, 2 :: real] = length [1, 5, 2, 8, 3 :: real] \<and>
   np_argmin (np_abs [-2, -1, 0, 1, 2]) = Inr 2 \<and> (1::nat) \<le> 2 \<and>
   closest_to_zero [-2, -1, 0, 1, 2] 2 \<and>
   peak_in [1, 5, 2, 8, 3] 0 2 1 \<and> peak_in [1, 5, 2, 8, 3] 2 5 3 \<and>
   (\<exists>r. analyze_pdos_curve [-2, -1, 0, 1, 2] [1, 5, 2, 8, 3] = Inr r \<and>
        analyze_pdos_contributions [-2, -1, 0, 1, 2] [(''W'', Some [1, 5, 2, 8, 3])] [''W'']
          = Inr [''W'' \<mapsto> r] \<and>
        valence_peak_energy r = [-2, -1, 0, 1, 2] ! 1 \<and> valence_peak_energy r = -1 \<and>
        conduction_peak_energy r = [-2, -1, 0, 1, 2] ! 3 \<and> conduction_peak_energy r = 1)"
proof -
  have one: "(1::nat) \<le> 2" by simp
  have len: "length [-2, -1, 0, 1, 2 :: real] = length [1, 5, 2, 8, 3 :: real]" by simp
  show ?thesis
    using pdos_peaks_first_maximum[OF len literal_fermi one, of "''W''" "''W''"] literal_peaks
    by (auto simp: literal_curve literal_fermi)
qed

text \<open>
  C10. For every curve with Fermi index \<open>f\<close> of at least 1, the reported total
  contribution, the sum of the trapezoidal integrals over the points before \<open>f\<close> and
  over the points from \<open>f\<close> on, is the trapezoidal integral over the whole curve minus
  the trapezoid of the segment from index \<open>f - 1\<close> to \<open>f\<close>. One point before \<open>f\<close>
  is enough; curves with two points on each side are a special case.
\<close>

theorem pdos_total_excludes_fermi_segment:
  assumes len: "length energy = length pdos"
    and fi: "np_argmin (np_abs energy) = Inr f" and one: "1 \<le> f"
  shows "\<exists>r. analyze_pdos_curve energy pdos = Inr r \<and>
        analyze_pdos_contributions energy [(atom, Some pdos)] [label] = Inr [label \<mapsto> r] \<and>
        valence_contribution r = trapezoid_sum (take f pdos) (take f energy) \<and>
        conduction_contribution r = trapezoid_sum (drop f pdos) (drop f energy) \<and>
        total_contribution r = valence_contribution r + conduction_contribution r \<and>
        total_contribution r =
          trapezoid_sum pdos energy - (energy ! f - energy ! (f - 1)) * (pdos ! (f - 1) + pdos ! f) / 2"
proof -
  have f: "f < length energy" using fermi_index_closest[OF fi] by (simp add: closest_to_zero_def)
  obtain iv ic where r: "analyze_pdos_curve energy pdos =
       Inr \<lparr>valence_contribution = trapezoid_sum (take f pdos) (take f energy),
            conduction_contribution = trapezoid_sum (drop f pdos) (drop f energy),
            total_contribution = trapezoid_sum (take f pdos) (take f energy) +
                                 trapezoid_sum (drop f pdos) (drop f energy),
            valence_peak_energy = energy ! iv,
            conduction_peak_energy = energy ! ic,
            max_pdos = Max (set pdos)\<rparr>"
    using analyze_pdos_curve_result[OF len fi one] by blast
  show ?thesis
    using trapezoid_sum_split[OF len one f] by (simp add: single_atom r)
qed

lemma uneven_fermi: "np_argmin (np_abs [-3, -1, 0, 2, 3]) = Inr 2"
  by (simp add: np_argmin_def np_abs_def)

lemma uneven_curve:
  "analyze_pdos_curve [-3, -1, 0, 2, 3] [1, 5, 2, 8, 3] =
     Inr \<lparr>valence_contribution = 6, conduction_contribution = 31/2, total_contribution = 43/2,
          valence_peak_energy = -1, conduction_peak_energy = 2, max_pdos = 8\<rparr>"
  by (simp add: analyze_pdos_curve_def uneven_fermi np_trapz_def np_diff_def broadcast2_def
        np_argmax_def np_index_def np_max_def Let_def)

theorem pdos_total_excludes_fermi_segment_witness:
  "length [-3, -1, 0, 2, 3 :: real] = length [1, 5, 2, 8, 3 :: real] \<and>
   np_argmin (np_abs [-3, -1, 0, 2, 3]) = Inr 2 \<and> (1::nat) \<le> 2 \<and>
   (\<exists>r. analyze_pdos_curve [-3, -1, 0, 2, 3] [1, 5, 2, 8, 3] = Inr r \<and>
        total_contribution r = 43 / 2 \<and>
        trapezoid_sum [1, 5, 2, 8, 3] [-3, -1, 0, 2, 3] - 7 / 2 = 43 / 2)"
proof -
  have one: "(1::nat) \<le> 2" by simp
  have len: "length [-3, -1, 0, 2, 3 :: real] = length [1, 5, 2, 8, 3 :: real]" by simp
  show ?thesis
    using pdos_total_excludes_fermi_segment[OF len uneven_fermi one, of "''W''" "''W''"]
    by (auto simp: uneven_curve uneven_fermi)
qed


section \<open>Tables as lists of rows\<close>

lemma concat_sum:
  fixes xss :: "real list list"
  assumes "\<And>i. i < length xss \<Longrightarrow> length (xss ! i) = n"
  shows "sum_list (concat xss) = (\<Sum>i<length xss. \<Sum>j<n. xss ! i ! j)"
proof -
  have "sum_list (concat xss) = sum_list (map sum_list xss)"
    by (induction xss) simp_all
  also have "\<dots> = (\<Sum>i<length xss. sum_list (xss ! i))"
    by (simp add: sum_list_sum_nth atLeast0LessThan)
  also have "\<dots> = (\<Sum>i<length xss. \<Sum>j<n. xss ! i ! j)"
    by (rule sum.cong) (simp_all add: sum_list_sum_nth atLeast0LessThan assms)
  finally show ?thesis .
qed

lemma concat_length:
  assumes "\<And>i. i < length xss \<Longrightarrow> length (xss ! i) = n"
  shows "length (concat xss) = length xss * n"
proof -
  have "map length xss = replicate (length xss) n"
    by (rule nth_equalityI) (simp_all add: assms)
  then show ?thesis by (simp add: length_concat sum_list_replicate)
qed

lemma concat_set:
  assumes "\<And>i. i < length xss \<Longrightarrow> length (xss ! i) = n"
  shows "set (concat xss) = {xss ! i ! j | i j. i < length xss \<and> j < n}"
proof (rule set_eqI)
  fix v
  have "v \<in> set (concat xss) \<longleftrightarrow> (\<exists>i < length xss. v \<in> set (xss ! i))"
    by (simp, metis in_set_conv_nth)
  also have "\<dots> \<longleftrightarrow> (\<exists>i < length xss. \<exists>j < n. v = xss ! i ! j)"
  proof (rule ex_cong1, rule conj_cong[OF refl])
    fix i assume "i < length xss"
    then show "v \<in> set (xss ! i) \<longleftrightarrow> (\<exists>j<n. v = xss ! i ! j)"
      using assms[of i] by (auto simp: in_set_conv_nth)
  qed
  also have "\<dots> \<longleftrightarrow> v \<in> {xss ! i ! j | i j. i < length xss \<and> j < n}"
    by auto
  finally show "v \<in> set (concat xss) \<longleftrightarrow> v \<in> {xss ! i ! j | i j. i < length xss \<and> j < n}" .
qed

lemma np_subtract_same_shape:
  assumes "ncols a = ncols b" "nrows a = nrows b" "wf_array2 a" "wf_array2 b"
  shows "np_subtract a b =
     Inr \<lparr>ncols = ncols a, rows = map2 (map2 (-)) (rows a) (rows b)\<rparr>"
proof -
  have len: "length (rows a) = length (rows b)" using assms by (simp add: nrows_def)
  have "map2 (\<lambda>r s. map2 (-) (stretch (ncols a) r) (stretch (ncols a) s)) (rows a) (rows b)
        = map2 (map2 (-)) (rows a) (rows b)"
  proof (rule nth_equalityI)
    show "length (map2 (\<lambda>r s. map2 (-) (stretch (ncols a) r) (stretch (ncols a) s)) (rows a) (rows b))
        = length (map2 (map2 (-)) (rows a) (rows b))" by simp
  next
    fix i assume "i < length (map2 (\<lambda>r s. map2 (-) (stretch (ncols a) r) (stretch (ncols a) s)) (rows a) (rows b))"
    then have i: "i < length (rows a)" "i < length (rows b)" by simp_all
    have "length (rows a ! i) = ncols a" "length (rows b ! i) = ncols a"
      using wf_array2_row[OF assms(3) i(1)] wf_array2_row[OF assms(4) i(2)] assms(1) by simp_all
    then show "map2 (\<lambda>r s. map2 (-) (stretch (ncols a) r) (stretch (ncols a) s)) (rows a) (rows b) ! i
        = map2 (map2 (-)) (rows a) (rows b) ! i"
      using i by (simp add: stretch_def)
  qed
  then show ?thesis
    using assms len by (simp add: np_subtract_def broadcast_dim_def stretch_def nrows_def)
qed

lemma difference_rows:
  assumes shape: "ncols a = ncols b" "nrows a = nrows b" and wf: "wf_array2 a" "wf_array2 b"
  defines "d \<equiv> map (map abs) (map2 (map2 (-)) (rows a) (rows b))"
  shows "length d = nrows a"
    and "\<And>i. i < nrows a \<Longrightarrow> length (d ! i) = ncols a"
    and "\<And>i j. i < nrows a \<Longrightarrow> j < ncols a \<Longrightarrow> d ! i ! j = \<bar>entry a i j - entry b i j\<bar>"
proof -
  have len: "length (rows a) = length (rows b)" using shape by (simp add: nrows_def)
  show "length d = nrows a" by (simp add: d_def len nrows_def)
  have row: "length (rows a ! i) = ncols a \<and> length (rows b ! i) = ncols a" if "i < nrows a" for i
    using wf_array2_row[OF wf(1), of i] wf_array2_row[OF wf(2), of i] that shape len
    by (simp add: nrows_def)
  show "length (d ! i) = ncols a" if "i < nrows a" for i
    using that row[OF that] len by (simp add: d_def nrows_def)
  show "d ! i ! j = \<bar>entry a i j - entry b i j\<bar>" if "i < nrows a" "j < ncols a" for i j
    using that row[OF that(1)] len by (simp add: d_def nrows_def entry_def)
qed

section \<open>The two-curve differencer\<close>

lemma compare_same_shape:
  assumes wf: "wf_array2 a" "wf_array2 b"
    and shape: "ncols a = ncols b" "nrows a = nrows b"
    and ne: "0 < nrows a" "0 < ncols a"
  shows "compare_with_without_soc (Some a) (Some b) =
           (Inr (Some (Finite (mean_abs_diff a b), max_abs_diff a b)),
            soc_report (Finite (mean_abs_diff a b)) (max_abs_diff a b))"
proof -
  define d where "d = map (map abs) (map2 (map2 (-)) (rows a) (rows b))"
  note dr = difference_rows[OF shape wf, folded d_def]
  have rowlen: "\<And>i. i < length d \<Longrightarrow> length (d ! i) = ncols a"
    using dr(1,2) by simp
  have sub: "np_subtract a b = Inr \<lparr>ncols = ncols a, rows = map2 (map2 (-)) (rows a) (rows b)\<rparr>"
    using shape wf by (rule np_subtract_same_shape)
  have fl: "flat (np_abs2 \<lparr>ncols = ncols a, rows = map2 (map2 (-)) (rows a) (rows b)\<rparr>) = concat d"
    by (simp add: flat_def np_abs2_def d_def)
  have len: "length (concat d) = nrows a * ncols a"
    using concat_length[of d "ncols a"] rowlen dr(1) by simp
  have "0 < length (concat d)" unfolding len using ne by simp
  then have nonempty: "concat d \<noteq> []" by (simp del: concat_eq_Nil_conv)
  have "sum_list (concat d) = (\<Sum>i<nrows a. \<Sum>j<ncols a. d ! i ! j)"
    using concat_sum[of d "ncols a"] rowlen dr(1) by simp
  also have "\<dots> = (\<Sum>i<nrows a. \<Sum>j<ncols a. \<bar>entry a i j - entry b i j\<bar>)"
    by (intro sum.cong refl) (simp add: dr(3))
  finally have mean: "np_mean (concat d) = Finite (mean_abs_diff a b)"
    using ne by (simp add: np_mean_def np_div_def len mean_abs_diff_def)
  have "set (concat d) = {d ! i ! j | i j. i < nrows a \<and> j < ncols a}"
    using concat_set[of d "ncols a"] rowlen dr(1) by simp
  also have "\<dots> = {\<bar>entry a i j - entry b i j\<bar> | i j. i < nrows a \<and> j < ncols a}"
    using dr(3) by (intro Collect_cong) (metis (no_types))
  finally have mx: "np_max (concat d) = Inr (max_abs_diff a b)"
    by (simp add: np_max_Max[OF nonempty] max_abs_diff_def)
  show ?thesis
    by (simp add: compare_with_without_soc_def sub fl mean mx Let_def)
qed

lemma self_difference:
  assumes ne: "0 < nrows a" "0 < ncols a"
  shows "mean_abs_diff a a = 0" "max_abs_diff a a = 0"
proof -
  show "mean_abs_diff a a = 0" by (simp add: mean_abs_diff_def)
  have "{\<bar>entry a i j - entry a i j\<bar> | i j. i < nrows a \<and> j < ncols a} = {0}"
    using ne by auto
  then show "max_abs_diff a a = 0" by (simp add: max_abs_diff_def)
qed

text \<open>
  C5 (as amended). For every pair of well-formed arrays of the same shape with at least
  one row and one column, the subtraction is the element-wise difference and the
  differencer reports the mean and the maximum of its absolute values; compared with
  itself, such an array gives mean 0 and maximum 0.
\<close>

theorem soc_difference_statistics:
  assumes wf: "wf_array2 a" "wf_array2 b"
    and shape: "ncols a = ncols b" "nrows a = nrows b"
    and ne: "0 < nrows a" "0 < ncols a"
  shows "(\<exists>d. np_subtract a b = Inr d \<and> ncols d = ncols a \<and> nrows d = nrows a \<and>
            (\<forall>i<nrows a. \<forall>j<ncols a. entry d i j = entry a i j - entry b i j)) \<and>
         compare_with_without_soc (Some a) (Some b) =
           (Inr (Some (Finite (mean_abs_diff a b), max_abs_diff a b)),
            soc_report (Finite (mean_abs_diff a b)) (max_abs_diff a b)) \<and>
         compare_with_without_soc (Some a) (Some a) =
           (Inr (Some (Finite 0, 0)), soc_report (Finite 0) 0)"
proof (intro conjI)
  let ?d = "\<lparr>ncols = ncols a, rows = map2 (map2 (-)) (rows a) (rows b)\<rparr>"
  have len: "length (rows a) = length (rows b)" using shape by (simp add: nrows_def)
  have "entry ?d i j = entry a i j - entry b i j" if "i < nrows a" "j < ncols a" for i j
  proof -
    have "length (rows a ! i) = ncols a" "length (rows b ! i) = ncols a"
      using wf_array2_row[OF wf(1), of i] wf_array2_row[OF wf(2), of i] that shape len
      by (simp_all add: nrows_def)
    then show ?thesis using that len by (simp add: entry_def nrows_def)
  qed
  moreover have "np_subtract a b = Inr ?d"
    using shape wf by (rule np_subtract_same_shape)
  moreover have "ncols ?d = ncols a" "nrows ?d = nrows a"
    using len by (simp_all add: nrows_def)
  ultimately show "\<exists>d. np_subtract a b = Inr d \<and> ncols d = ncols a \<and> nrows d = nrows a \<and>
            (\<forall>i<nrows a. \<forall>j<ncols a. entry d i j = entry a i j - entry b i j)"
    by blast
next
  show "compare_with_without_soc (Some a) (Some b) =
           (Inr (Some (Finite (mean_abs_diff a b), max_abs_diff a b)),
            soc_report (Finite (mean_abs_diff a b)) (max_abs_diff a b))"
    using wf shape ne by (rule compare_same_shape)
next
  show "compare_with_without_soc (Some a) (Some a) =
           (Inr (Some (Finite 0, 0)), soc_report (Finite 0) 0)"
    using compare_same_shape[OF wf(1) wf(1) refl refl ne] self_difference[OF ne] by simp
qed

lemma bands_ok:
  "wf_array2 soc_bands" "wf_array2 plain_bands" "ncols soc_bands = ncols plain_bands"
  "nrows soc_bands = nrows plain_bands" "0 < nrows soc_bands" "0 < ncols soc_bands"
  by (simp_all add: wf_array2_def soc_bands_def plain_bands_def nrows_def)

lemma bands_compared:
  "compare_with_without_soc (Some soc_bands) (Some plain_bands) =
     (Inr (Some (Finite (3/2), 3)), soc_report (Finite (3/2)) 3)"
  by (simp add: compare_with_without_soc_def soc_bands_def plain_bands_def np_subtract_def
        broadcast_dim_def stretch_def nrows_def np_abs2_def flat_def np_mean_def np_div_def
        np_max_def Let_def)

theorem soc_difference_statistics_witness:
  "wf_array2 soc_bands \<and> wf_array2 plain_bands \<and> ncols soc_bands = ncols plain_bands \<and>
   nrows soc_bands = nrows plain_bands \<and> 0 < nrows soc_bands \<and> 0 < ncols soc_bands \<and>
   compare_with_without_soc (Some soc_bands) (Some plain_bands) =
     (Inr (Some (Finite (3/2), 3)), soc_report (Finite (3/2)) 3) \<and>
   mean_abs_diff soc_bands plain_bands = 3/2 \<and> max_abs_diff soc_bands plain_bands = 3 \<and>
   compare_with_without_soc (Some soc_bands) (Some soc_bands) =
     (Inr (Some (Finite 0, 0)), soc_report (Finite 0) 0)"
proof -
  note t = soc_difference_statistics[OF bands_ok]
  have "(Inr (Some (Finite (mean_abs_diff soc_bands plain_bands), max_abs_diff soc_bands plain_bands)),
         soc_report (Finite (mean_abs_diff soc_bands plain_bands)) (max_abs_diff soc_bands plain_bands))
      = (Inr (Some (Finite (3/2), 3)) :: exn + (fval \<times> real) option, soc_report (Finite (3/2)) 3)"
    using t bands_compared by simp
  then have "mean_abs_diff soc_bands plain_bands = 3/2 \<and> max_abs_diff soc_bands plain_bands = 3"
    by simp
  then show ?thesis using t bands_ok bands_compared by simp
qed

text \<open>
  C5 as stated fails on an array without elements: the shape \<open>(0, 21)\<close> compared with
  itself raises ValueError, because the maximum of an empty array has no value.
\<close>

theorem soc_difference_empty_counterexample:
  "wf_array2 rowless_bands \<and>
   compare_with_without_soc (Some rowless_bands) (Some rowless_bands) = (Inl ValueError, [])"
  by (simp add: compare_with_without_soc_def rowless_bands_def np_subtract_def wf_array2_def
        broadcast_dim_def stretch_def nrows_def np_abs2_def flat_def np_mean_def np_div_def
        np_max_def Let_def)

text \<open>
  C9. Whenever one of the two inputs of the differencer is \<open>None\<close>, it returns \<open>None\<close>:
  it raises nothing, computes nothing and prints nothing.
\<close>

theorem compare_without_data_returns_none:
  assumes "soc_energies = None \<or> no_soc_energies = None"
  shows "compare_with_without_soc soc_energies no_soc_energies = (Inr None, [])"
  using assms by (auto simp: compare_with_without_soc_def split: option.splits)

theorem compare_without_data_returns_none_witness:
  "compare_with_without_soc None (Some plain_bands) = (Inr None, []) \<and>
   compare_with_without_soc (Some soc_bands) None = (Inr None, []) \<and>
   compare_with_without_soc None None = (Inr None, [])"
  using compare_without_data_returns_none[of None "Some plain_bands"]
    compare_without_data_returns_none[of "Some soc_bands" None]
    compare_without_data_returns_none[of None None]
  by simp


section \<open>The loaders and the missing file\<close>

lemma load_fails:
  assumes "loadtxt filename = Inl e"
  shows "load_table loadtxt filename = Inl e" "load_pair loadtxt filename = Inl e"
  using assms by (simp_all add: load_table_def load_pair_def)

lemma main_band_missing:
  assumes "loadtxt ''bands.dat'' = Inl e"
  shows "main_band loadtxt plot =
     (Inr (), [[Str ''=== Band Structure Analysis ===''],
               [Str ''Error reading band structure file: '', Str ''bands.dat''],
               [Str ''Band structure analysis completed!'']])"
  using assms by (simp add: main_band_def read_band_structure_def load_table_def and_then_def say_def)

lemma main_phonon_missing:
  assumes "loadtxt ''phonon_dos.dat'' = Inl e" "loadtxt ''phonon_frequencies.dat'' = Inl e'"
  shows "main_phonon loadtxt plot plot' =
     (Inr (), [[Str ''=== Phonon Analysis ===''],
               [Str ''Error reading phonon DOS file: '', Str ''phonon_dos.dat''],
               [Str ''Error reading phonon modes file: '', Str ''phonon_frequencies.dat''],
               [Str ''Phonon analysis completed!'']])"
  using assms
  by (simp add: main_phonon_def read_phonon_dos_def read_phonon_modes_def
        load_table_def load_pair_def and_then_def say_def)

lemma soc_missing:
  assumes "loadtxt ''soc_bands.dat'' = Inl e"
  shows "analyze_soc_effects loadtxt plot =
     (Inr (), [[Str ''=== Spin-Orbit Coupling Analysis ===''],
               [Str ''Error reading SOC energies file: '', Str ''soc_bands.dat''],
               [Str ''SOC analysis completed!'']])"
  using assms
  by (simp add: analyze_soc_effects_def read_soc_energies_def load_table_def
        and_then_def say_def)

lemma soc_reference_missing:
  assumes "load_table loadtxt ''soc_bands.dat'' = Inr t" "loadtxt ''bands.dat'' = Inl e"
  shows "analyze_soc_effects loadtxt plot =
     (Inr (), [[Str ''=== Spin-Orbit Coupling Analysis ===''],
               [Str ''Error reading SOC energies file: '', Str ''bands.dat''],
               [Str ''SOC analysis completed!'']])"
proof -
  have "load_table loadtxt ''bands.dat'' = Inl e"
    using assms(2) by (simp add: load_table_def)
  then show ?thesis
    by (cases t) (simp add: analyze_soc_effects_def read_soc_energies_def assms(1)
        and_then_def say_def)
qed

lemma main_phonon_dos_missing:
  assumes "loadtxt ''phonon_dos.dat'' = Inl e"
  shows "main_phonon loadtxt plot plot' =
     (case load_table loadtxt ''phonon_frequencies.dat'' of
        Inl x \<Rightarrow>
          (Inr (), [[Str ''=== Phonon Analysis ===''],
                    [Str ''Error reading phonon DOS file: '', Str ''phonon_dos.dat''],
                    [Str ''Error reading phonon modes file: '', Str ''phonon_frequencies.dat''],
                    [Str ''Phonon analysis completed!'']])
      | Inr modes \<Rightarrow>
          (case plot' of
             None \<Rightarrow>
               (Inr (), [[Str ''=== Phonon Analysis ===''],
                         [Str ''Error reading phonon DOS file: '', Str ''phonon_dos.dat''],
                         [Str ''Phonon analysis completed!'']])
           | Some x \<Rightarrow>
               (Inl x, [[Str ''=== Phonon Analysis ===''],
                        [Str ''Error reading phonon DOS file: '', Str ''phonon_dos.dat'']])))"
proof -
  have d: "load_pair loadtxt ''phonon_dos.dat'' = Inl e"
    using assms by (simp add: load_pair_def)
  show ?thesis
    by (simp add: main_phonon_def read_phonon_dos_def read_phonon_modes_def d
        and_then_def say_def plotting_def split: sum.splits option.splits prod.splits)
qed

lemma main_phonon_modes_missing:
  assumes "loadtxt ''phonon_frequencies.dat'' = Inl e"
  shows "main_phonon loadtxt plot plot' =
     (case load_pair loadtxt ''phonon_dos.dat'' of
        Inl x \<Rightarrow>
          (Inr (), [[Str ''=== Phonon Analysis ===''],
                    [Str ''Error reading phonon DOS file: '', Str ''phonon_dos.dat''],
                    [Str ''Error reading phonon modes file: '', Str ''phonon_frequencies.dat''],
                    [Str ''Phonon analysis completed!'']])
      | Inr (frequency, dos) \<Rightarrow>
          (case plot of
             Some x \<Rightarrow> (Inl x, [[Str ''=== Phonon Analysis ==='']])
           | None \<Rightarrow>
               (case analyze_phonon_properties frequency dos of
                  (Inl x, out) \<Rightarrow> (Inl x, [Str ''=== Phonon Analysis ===''] # out)
                | (Inr result, out) \<Rightarrow>
                    (Inr (), [Str ''=== Phonon Analysis ===''] # out @
                       [[Str ''Error reading phonon modes file: '', Str ''phonon_frequencies.dat''],
                        [Str ''Phonon analysis completed!'']]))))"
proof -
  have m: "load_table loadtxt ''phonon_frequencies.dat'' = Inl e"
    using assms by (simp add: load_table_def)
  show ?thesis
    by (simp add: main_phonon_def read_phonon_dos_def read_phonon_modes_def m
        and_then_def say_def plotting_def split: sum.splits option.splits prod.splits)
qed

lemma soc_reference_missing_any:
  assumes "loadtxt ''bands.dat'' = Inl e"
  shows "analyze_soc_effects loadtxt plot =
     (Inr (), [[Str ''=== Spin-Orbit Coupling Analysis ===''],
               (case load_table loadtxt ''soc_bands.dat'' of
                  Inl x \<Rightarrow> [Str ''Error reading SOC energies file: '', Str ''soc_bands.dat'']
                | Inr loaded \<Rightarrow> [Str ''Error reading SOC energies file: '', Str ''bands.dat'']),
               [Str ''SOC analysis completed!'']])"
proof -
  have b: "load_table loadtxt ''bands.dat'' = Inl e"
    using assms by (simp add: load_table_def)
  show ?thesis
    by (simp add: analyze_soc_effects_def read_soc_energies_def b
        and_then_def say_def split: sum.splits prod.splits)
qed

text \<open>
  C6 (as amended). For every path on which \<open>np.loadtxt\<close> raises (an absent or
  unparsable file), the five loaders with a \<open>try\<close> (\<open>read_band_structure\<close>,
  \<open>read_phonon_dos\<close>, \<open>read_phonon_modes\<close>, \<open>read_soc_energies\<close> and the
  \<open>data_loader\<close> of qe\_pdos\_analysis.py) print one message and return the pair of
  \<open>None\<close>, and the main routines of the band, phonon and spin-orbit scripts skip the
  steps that depend on that file. The band script and the spin-orbit script then always
  run to their last line. The phonon script reads two files: without the DOS file it
  goes on with the dispersion and reaches its last line unless the dispersion plot
  raises; without the modes file it reaches its last line unless the DOS plot or the DOS
  analysis raises. The \<open>data_loader\<close> of qe\_pdos\_simple.py has no \<open>try\<close>: the
  exception reaches its caller.
\<close>

theorem guarded_loaders_return_no_data:
  assumes miss: "loadtxt filename = Inl e"
  shows
   "read_band_structure loadtxt filename =
      (None, [[Str ''Error reading band structure file: '', Str filename]]) \<and>
    read_phonon_dos loadtxt filename =
      (None, [[Str ''Error reading phonon DOS file: '', Str filename]]) \<and>
    read_phonon_modes loadtxt filename =
      (None, [[Str ''Error reading phonon modes file: '', Str filename]]) \<and>
    read_soc_energies loadtxt filename =
      (None, [[Str ''Error reading SOC energies file: '', Str filename]]) \<and>
    data_loader loadtxt filename =
      (None, [if e = FileNotFoundError
              then [Str ''Warning: File '', Str filename, Str '' not found'']
              else [Str ''Error loading '', Str filename, Str '': '', Exc e]]) \<and>
    data_loader_simple loadtxt filename = Inl e \<and>
    (filename = ''bands.dat'' \<longrightarrow>
       main_band loadtxt plot =
         (Inr (), [[Str ''=== Band Structure Analysis ===''],
                   [Str ''Error reading band structure file: '', Str ''bands.dat''],
                   [Str ''Band structure analysis completed!'']])) \<and>
    (filename = ''phonon_dos.dat'' \<and> loadtxt ''phonon_frequencies.dat'' = Inl e' \<longrightarrow>
       main_phonon loadtxt plot plot' =
         (Inr (), [[Str ''=== Phonon Analysis ===''],
                   [Str ''Error reading phonon DOS file: '', Str ''phonon_dos.dat''],
                   [Str ''Error reading phonon modes file: '', Str ''phonon_frequencies.dat''],
                   [Str ''Phonon analysis completed!'']])) \<and>
    (filename = ''phonon_dos.dat'' \<longrightarrow>
       main_phonon loadtxt plot plot' =
         (case load_table loadtxt ''phonon_frequencies.dat'' of
            Inl x \<Rightarrow>
              (Inr (), [[Str ''=== Phonon Analysis ===''],
                        [Str ''Error reading phonon DOS file: '', Str ''phonon_dos.dat''],
                        [Str ''Error reading phonon modes file: '',
                         Str ''phonon_frequencies.dat''],
                        [Str ''Phonon analysis completed!'']])
          | Inr modes \<Rightarrow>
              (case plot' of
                 None \<Rightarrow>
                   (Inr (), [[Str ''=== Phonon Analysis ===''],
                             [Str ''Error reading phonon DOS file: '', Str ''phonon_dos.dat''],
                             [Str ''Phonon analysis completed!'']])
               | Some x \<Rightarrow>
                   (Inl x, [[Str ''=== Phonon Analysis ===''],
                            [Str ''Error reading phonon DOS file: '',
                             Str ''phonon_dos.dat'']])))) \<and>
    (filename = ''phonon_frequencies.dat'' \<longrightarrow>
       main_phonon loadtxt plot plot' =
         (case load_pair loadtxt ''phonon_dos.dat'' of
            Inl x \<Rightarrow>
              (Inr (), [[Str ''=== Phonon Analysis ===''],
                        [Str ''Error reading phonon DOS file: '', Str ''phonon_dos.dat''],
                        [Str ''Error reading phonon modes file: '',
                         Str ''phonon_frequencies.dat''],
                        [Str ''Phonon analysis completed!'']])
          | Inr (frequency, dos) \<Rightarrow>
              (case plot of
                 Some x \<Rightarrow> (Inl x, [[Str ''=== Phonon Analysis ==='']])
               | None \<Rightarrow>
                   (case analyze_phonon_properties frequency dos of
                      (Inl x, out) \<Rightarrow> (Inl x, [Str ''=== Phonon Analysis ===''] # out)
                    | (Inr result, out) \<Rightarrow>
                        (Inr (), [Str ''=== Phonon Analysis ===''] # out @
                           [[Str ''Error reading phonon modes file: '',
                             Str ''phonon_frequencies.dat''],
                            [Str ''Phonon analysis completed!'']]))))) \<and>
    (filename = ''soc_bands.dat'' \<longrightarrow>
       analyze_soc_effects loadtxt plot =
         (Inr (), [[Str ''=== Spin-Orbit Coupling Analysis ===''],
                   [Str ''Error reading SOC energies file: '', Str ''soc_bands.dat''],
                   [Str ''SOC analysis completed!'']])) \<and>
    (filename = ''bands.dat'' \<and> load_table loadtxt ''soc_bands.dat'' = Inr t \<longrightarrow>
       analyze_soc_effects loadtxt plot =
         (Inr (), [[Str ''=== Spin-Orbit Coupling Analysis ===''],
                   [Str ''Error reading SOC energies file: '', Str ''bands.dat''],
                   [Str ''SOC analysis completed!'']])) \<and>
    (filename = ''bands.dat'' \<longrightarrow>
       analyze_soc_effects loadtxt plot =
         (Inr (), [[Str ''=== Spin-Orbit Coupling Analysis ===''],
                   (case load_table loadtxt ''soc_bands.dat'' of
                      Inl x \<Rightarrow>
                        [Str ''Error reading SOC energies file: '', Str ''soc_bands.dat'']
                    | Inr loaded \<Rightarrow>
                        [Str ''Error reading SOC energies file: '', Str ''bands.dat'']),
                   [Str ''SOC analysis completed!'']]))"
proof -
  note f = load_fails[of loadtxt filename e, OF miss]
  have loaders:
    "read_band_structure loadtxt filename =
      (None, [[Str ''Error reading band structure file: '', Str filename]])"
    "read_phonon_dos loadtxt filename =
      (None, [[Str ''Error reading phonon DOS file: '', Str filename]])"
    "read_phonon_modes loadtxt filename =
      (None, [[Str ''Error reading phonon modes file: '', Str filename]])"
    "read_soc_energies loadtxt filename =
      (None, [[Str ''Error reading SOC energies file: '', Str filename]])"
    by (simp_all add: read_band_structure_def read_phonon_dos_def read_phonon_modes_def
          read_soc_energies_def f)
  have pdos: "data_loader loadtxt filename =
      (None, [if e = FileNotFoundError
              then [Str ''Warning: File '', Str filename, Str '' not found'']
              else [Str ''Error loading '', Str filename, Str '': '', Exc e]])"
    "data_loader_simple loadtxt filename = Inl e"
    by (simp_all add: data_loader_def data_loader_simple_def f)
  show ?thesis
  proof (intro conjI impI)
    assume "filename = ''phonon_dos.dat''"
    then show "main_phonon loadtxt plot plot' =
         (case load_table loadtxt ''phonon_frequencies.dat'' of
            Inl x \<Rightarrow>
              (Inr (), [[Str ''=== Phonon Analysis ===''],
                        [Str ''Error reading phonon DOS file: '', Str ''phonon_dos.dat''],
                        [Str ''Error reading phonon modes file: '',
                         Str ''phonon_frequencies.dat''],
                        [Str ''Phonon analysis completed!'']])
          | Inr modes \<Rightarrow>
              (case plot' of
                 None \<Rightarrow>
                   (Inr (), [[Str ''=== Phonon Analysis ===''],
                             [Str ''Error reading phonon DOS file: '', Str ''phonon_dos.dat''],
                             [Str ''Phonon analysis completed!'']])
               | Some x \<Rightarrow>
                   (Inl x, [[Str ''=== Phonon Analysis ===''],
                            [Str ''Error reading phonon DOS file: '',
                             Str ''phonon_dos.dat'']])))"
      using miss main_phonon_dos_missing[of loadtxt e plot plot'] by simp
  next
    assume "filename = ''phonon_frequencies.dat''"
    then show "main_phonon loadtxt plot plot' =
         (case load_pair loadtxt ''phonon_dos.dat'' of
            Inl x \<Rightarrow>
              (Inr (), [[Str ''=== Phonon Analysis ===''],
                        [Str ''Error reading phonon DOS file: '', Str ''phonon_dos.dat''],
                        [Str ''Error reading phonon modes file: '',
                         Str ''phonon_frequencies.dat''],
                        [Str ''Phonon analysis completed!'']])
          | Inr (frequency, dos) \<Rightarrow>
              (case plot of
                 Some x \<Rightarrow> (Inl x, [[Str ''=== Phonon Analysis ==='']])
               | None \<Rightarrow>
                   (case analyze_phonon_properties frequency dos of
                      (Inl x, out) \<Rightarrow> (Inl x, [Str ''=== Phonon Analysis ===''] # out)
                    | (Inr result, out) \<Rightarrow>
                        (Inr (), [Str ''=== Phonon Analysis ===''] # out @
                           [[Str ''Error reading phonon modes file: '',
                             Str ''phonon_frequencies.dat''],
                            [Str ''Phonon analysis completed!'']]))))"
      using miss main_phonon_modes_missing[of loadtxt e plot plot'] by simp
  next
    assume "filename = ''bands.dat''"
    then show "analyze_soc_effects loadtxt plot =
         (Inr (), [[Str ''=== Spin-Orbit Coupling Analysis ===''],
                   (case load_table loadtxt ''soc_bands.dat'' of
                      Inl x \<Rightarrow>
                        [Str ''Error reading SOC energies file: '', Str ''soc_bands.dat'']
                    | Inr loaded \<Rightarrow>
                        [Str ''Error reading SOC energies file: '', Str ''bands.dat'']),
                   [Str ''SOC analysis completed!'']])"
      using miss soc_reference_missing_any[of loadtxt e plot] by simp
  next
    assume "filename = ''bands.dat''"
    then show "main_band loadtxt plot =
         (Inr (), [[Str ''=== Band Structure Analysis ===''],
                   [Str ''Error reading band structure file: '', Str ''bands.dat''],
                   [Str ''Band structure analysis completed!'']])"
      using miss main_band_missing[of loadtxt e plot] by simp
  next
    assume "filename = ''phonon_dos.dat'' \<and> loadtxt ''phonon_frequencies.dat'' = Inl e'"
    then show "main_phonon loadtxt plot plot' =
         (Inr (), [[Str ''=== Phonon Analysis ===''],
                   [Str ''Error reading phonon DOS file: '', Str ''phonon_dos.dat''],
                   [Str ''Error reading phonon modes file: '', Str ''phonon_frequencies.dat''],
                   [Str ''Phonon analysis completed!'']])"
      using miss main_phonon_missing[of loadtxt e e' plot plot'] by simp
  next
    assume "filename = ''soc_bands.dat''"
    then show "analyze_soc_effects loadtxt plot =
         (Inr (), [[Str ''=== Spin-Orbit Coupling Analysis ===''],
                   [Str ''Error reading SOC energies file: '', Str ''soc_bands.dat''],
                   [Str ''SOC analysis completed!'']])"
      using miss soc_missing[of loadtxt e plot] by simp
  next
    assume "filename = ''bands.dat'' \<and> load_table loadtxt ''soc_bands.dat'' = Inr t"
    then show "analyze_soc_effects loadtxt plot =
         (Inr (), [[Str ''=== Spin-Orbit Coupling Analysis ===''],
                   [Str ''Error reading SOC energies file: '', Str ''bands.dat''],
                   [Str ''SOC analysis completed!'']])"
      using miss soc_reference_missing[of loadtxt t e plot] by simp
  qed (rule loaders pdos)+
qed

theorem guarded_loaders_return_no_data_witness:
  "no_files ''bands.dat'' = Inl FileNotFoundError \<and>
   read_band_structure no_files ''bands.dat'' =
      (None, [[Str ''Error reading band structure file: '', Str ''bands.dat'']]) \<and>
   data_loader no_files ''bands.dat'' =
      (None, [[Str ''Warning: File '', Str ''bands.dat'', Str '' not found'']]) \<and>
   data_loader_simple no_files ''bands.dat'' = Inl FileNotFoundError \<and>
   main_band no_files None =
         (Inr (), [[Str ''=== Band Structure Analysis ===''],
                   [Str ''Error reading band structure file: '', Str ''bands.dat''],
                   [Str ''Band structure analysis completed!'']]) \<and>
   main_phonon no_files None None =
         (Inr (), [[Str ''=== Phonon Analysis ===''],
                   [Str ''Error reading phonon DOS file: '', Str ''phonon_dos.dat''],
                   [Str ''Error reading phonon modes file: '', Str ''phonon_frequencies.dat''],
                   [Str ''Phonon analysis completed!'']]) \<and>
   analyze_soc_effects no_files None =
         (Inr (), [[Str ''=== Spin-Orbit Coupling Analysis ===''],
                   [Str ''Error reading SOC energies file: '', Str ''soc_bands.dat''],
                   [Str ''SOC analysis completed!'']]) \<and>
   only_modes ''phonon_dos.dat'' = Inl FileNotFoundError \<and>
   main_phonon only_modes None None =
         (Inr (), [[Str ''=== Phonon Analysis ===''],
                   [Str ''Error reading phonon DOS file: '', Str ''phonon_dos.dat''],
                   [Str ''Phonon analysis completed!'']]) \<and>
   only_dos ''phonon_frequencies.dat'' = Inl FileNotFoundError \<and>
   main_phonon only_dos None None =
         (Inr (), [Str ''=== Phonon Analysis ===''] # phonon_report 3 (Finite (15/8)) 4 @
            [[Str ''Error reading phonon modes file: '', Str ''phonon_frequencies.dat''],
             [Str ''Phonon analysis completed!'']])"
proof -
  have m: "no_files p = Inl FileNotFoundError" for p by (simp add: no_files_def)
  have om: "only_modes ''phonon_dos.dat'' = Inl FileNotFoundError"
    by (simp add: only_modes_def)
  have od: "only_dos ''phonon_frequencies.dat'' = Inl FileNotFoundError"
    by (simp add: only_dos_def)
  have a: "main_phonon only_modes None None =
         (Inr (), [[Str ''=== Phonon Analysis ===''],
                   [Str ''Error reading phonon DOS file: '', Str ''phonon_dos.dat''],
                   [Str ''Phonon analysis completed!'']])"
    using guarded_loaders_return_no_data[where loadtxt = only_modes
        and filename = "''phonon_dos.dat''" and e = FileNotFoundError and plot = None
        and plot' = None and e' = FileNotFoundError, OF om]
    by (simp add: only_modes_def load_table_def column_def columns_from_def)
  have b: "main_phonon only_dos None None =
         (Inr (), [Str ''=== Phonon Analysis ===''] # phonon_report 3 (Finite (15/8)) 4 @
            [[Str ''Error reading phonon modes file: '', Str ''phonon_frequencies.dat''],
             [Str ''Phonon analysis completed!'']])"
    using guarded_loaders_return_no_data[where loadtxt = only_dos
        and filename = "''phonon_frequencies.dat''" and e = FileNotFoundError and plot = None
        and plot' = None and e' = FileNotFoundError, OF od]
    by (simp add: only_dos_def load_pair_def column_def analyze_phonon_properties_def
        np_trapz_def np_diff_def broadcast2_def np_max_def np_div_def Let_def)
  show ?thesis
    using guarded_loaders_return_no_data[where loadtxt = no_files and filename = "''bands.dat''"
        and e = FileNotFoundError and plot = None and plot' = None and e' = FileNotFoundError]
      guarded_loaders_return_no_data[where loadtxt = no_files and filename = "''phonon_dos.dat''"
        and e = FileNotFoundError and plot = None and plot' = None and e' = FileNotFoundError]
      guarded_loaders_return_no_data[where loadtxt = no_files and filename = "''soc_bands.dat''"
        and e = FileNotFoundError and plot = None and plot' = None and e' = FileNotFoundError]
      a b om od
    by (simp add: m)
qed

text \<open>
  C6 as stated fails for the loader of qe\_pdos\_simple.py: in a directory without files it
  raises FileNotFoundError instead of returning \<open>None\<close> values.
\<close>

theorem unguarded_loader_counterexample:
  "no_files ''atom_W_tot.dat'' = Inl FileNotFoundError \<and>
   data_loader_simple no_files ''atom_W_tot.dat'' = Inl FileNotFoundError"
  by (simp add: data_loader_simple_def load_pair_def no_files_def)

end
